theory Spec2Isabelle
  imports Complex_Main
begin

section \<open>Data model (types.ts)\<close>

text \<open>
  The interfaces of \<^verbatim>\<open>types.ts\<close> as records. \<^verbatim>\<open>id\<close>, \<^verbatim>\<open>title\<close>, \<^verbatim>\<open>name\<close> and
  \<^verbatim>\<open>enabled\<close> occur in several interfaces, so those fields carry the interface as a
  prefix. An optional field (\<^verbatim>\<open>expiryDate?\<close>, \<^verbatim>\<open>password?\<close>) is an option.
\<close>

record PrayerTime =
  azan :: string
  iqamah :: string

record DailyPrayers =
  fajr :: PrayerTime
  zuhr :: PrayerTime
  asr :: PrayerTime
  maghrib :: PrayerTime
  isha :: PrayerTime

record JummaTime =
  khutbah :: string
  jamaat :: string

record RamadanTime =
  ramadan_enabled :: bool
  suhoor :: string
  iftar :: string

record MasjidProfile =
  profile_name :: string
  area :: string

record Notice =
  notice_id :: string
  notice_title :: string
  message :: string
  date :: string
  expiryDate :: "string option"
  isImportant :: bool

record ExternalLink =
  link_id :: string
  link_title :: string
  url :: string

datatype Role = SUPER_ADMIN | ADMIN

record User =
  user_id :: string
  email :: string
  password :: "string option"
  role :: Role
  enabled :: bool

text \<open>
  \<^verbatim>\<open>AppData\<close> as it exists at run time: the value comes out of \<^verbatim>\<open>JSON.parse\<close> and
  the loader tests three of its fields for presence (\<^verbatim>\<open>data.prayers\<close>, \<^verbatim>\<open>data.users\<close>,
  \<^verbatim>\<open>data.links\<close>). Those three are options, \<open>None\<close> being a field that is missing
  (or holds a falsy value); a value of the TypeScript type has all three.
\<close>

record AppData =
  profile :: MasjidProfile
  prayers :: "DailyPrayers option"
  jumma :: JummaTime
  ramadan :: RamadanTime
  notices :: "Notice list"
  users :: "User list option"
  links :: "ExternalLink list option"
  lastUpdated :: string

datatype exn = NetworkError | SyntaxError | TypeError | Error string

section \<open>JavaScript numbers, strings and dates\<close>

text \<open>
  A JavaScript number that the program computes from a time string is an integer or
  \<^verbatim>\<open>NaN\<close>: \<open>None\<close> is \<^verbatim>\<open>NaN\<close>. Arithmetic propagates \<^verbatim>\<open>NaN\<close>, a comparison with
  \<^verbatim>\<open>NaN\<close> is false.
\<close>

type_synonym jsnum = "int option"

definition num_add :: "jsnum \<Rightarrow> jsnum \<Rightarrow> jsnum" where
  "num_add a b = (case (a, b) of (Some x, Some y) \<Rightarrow> Some (x + y) | _ \<Rightarrow> None)"

definition num_sub :: "jsnum \<Rightarrow> jsnum \<Rightarrow> jsnum" where
  "num_sub a b = (case (a, b) of (Some x, Some y) \<Rightarrow> Some (x - y) | _ \<Rightarrow> None)"

definition num_gt :: "jsnum \<Rightarrow> jsnum \<Rightarrow> bool" where
  "num_gt a b = (case (a, b) of (Some x, Some y) \<Rightarrow> x > y | _ \<Rightarrow> False)"

text \<open>\<^verbatim>\<open>s.split(c)\<close> for a one-character separator: never the empty array.\<close>

fun split :: "char \<Rightarrow> string \<Rightarrow> string list" where
  "split c [] = [[]]"
| "split c (x # xs) =
     (if x = c then [] # split c xs
      else (case split c xs of [] \<Rightarrow> [[x]] | y # ys \<Rightarrow> (x # y) # ys))"

definition is_digit :: "char \<Rightarrow> bool" where
  "is_digit c = (let n = (of_char c :: nat) in 48 \<le> n \<and> n \<le> 57)"

definition digit_val :: "char \<Rightarrow> int" where
  "digit_val c = int (of_char c) - 48"

definition decimal :: "string \<Rightarrow> int" where
  "decimal s = foldl (\<lambda>acc c. acc * 10 + digit_val c) 0 s"

text \<open>
  \<^verbatim>\<open>Number(s)\<close> on the strings a time or date field is made of: the empty string is 0, a
  run of decimal digits is its value. Every other string is \<^verbatim>\<open>NaN\<close> here, although
  JavaScript also reads surrounding white space, signs, fractions, exponents and radix
  prefixes; the theorems below that depend on a numeric value are stated for strings
  of digits.
\<close>

definition Number :: "string \<Rightarrow> jsnum" where
  "Number s = (if list_all is_digit s then Some (decimal s) else None)"

text \<open>
  A \<^verbatim>\<open>Date\<close> is its \<^verbatim>\<open>getTime()\<close>: milliseconds since the epoch, UTC. The local-time
  accessors depend on the time zone of the browser, passed as \<open>tz\<close>, the minutes east
  of UTC (the negation of \<^verbatim>\<open>getTimezoneOffset()\<close>), taken as fixed: no daylight-saving
  change between the instants compared. 1 January 1970 was a Thursday (day 4).
\<close>

type_synonym Date = int

definition localTime :: "int \<Rightarrow> Date \<Rightarrow> int" where
  "localTime tz t = t + tz * 60000"

definition Date_getHours :: "int \<Rightarrow> Date \<Rightarrow> int" where
  "Date_getHours tz t = (localTime tz t mod 86400000) div 3600000"

definition Date_getMinutes :: "int \<Rightarrow> Date \<Rightarrow> int" where
  "Date_getMinutes tz t = (localTime tz t mod 3600000) div 60000"

definition Date_getDay :: "int \<Rightarrow> Date \<Rightarrow> int" where
  "Date_getDay tz t = (localTime tz t div 86400000 + 4) mod 7"

section \<open>Time utilities and the next-prayer resolver (App.tsx)\<close>

text \<open>
  \<^verbatim>\<open>const [h, m] = time.split(':').map(Number); return h * 60 + m;\<close>
  A missing second part leaves \<^verbatim>\<open>m\<close> undefined and the sum \<^verbatim>\<open>NaN\<close>.
\<close>

definition getMinutes :: "string \<Rightarrow> jsnum" where
  "getMinutes time =
     (case map Number (split CHR '':'' time) of
        h # m # _ \<Rightarrow> num_add (case h of Some x \<Rightarrow> Some (x * 60) | None \<Rightarrow> None) m
      | _ \<Rightarrow> None)"

record Entry = PrayerTime +
  name :: string

text \<open>\<^verbatim>\<open>Array.prototype.findIndex\<close>: the first index whose element passes, or -1.\<close>

fun findIndex :: "('a \<Rightarrow> bool) \<Rightarrow> 'a list \<Rightarrow> int" where
  "findIndex P [] = -1"
| "findIndex P (x # xs) =
     (if P x then 0 else (let i = findIndex P xs in if i = -1 then -1 else i + 1))"

text \<open>Lines 331-337 of \<^verbatim>\<open>nextPrayerState\<close>: the five entries in their fixed order.\<close>

definition base_entries :: "DailyPrayers \<Rightarrow> Entry list" where
  "base_entries p =
     [\<lparr>azan = azan (fajr p), iqamah = iqamah (fajr p), name = ''Fajr''\<rparr>,
      \<lparr>azan = azan (zuhr p), iqamah = iqamah (zuhr p), name = ''Zuhr''\<rparr>,
      \<lparr>azan = azan (asr p), iqamah = iqamah (asr p), name = ''Asr''\<rparr>,
      \<lparr>azan = azan (maghrib p), iqamah = iqamah (maghrib p), name = ''Maghrib''\<rparr>,
      \<lparr>azan = azan (isha p), iqamah = iqamah (isha p), name = ''Isha''\<rparr>]"

text \<open>Lines 339-345: on a Friday the entry named Zuhr is mapped to the Jumma entry.\<close>

definition schedule :: "DailyPrayers \<Rightarrow> JummaTime \<Rightarrow> bool \<Rightarrow> Entry list" where
  "schedule p j isFri =
     (if isFri
      then map (\<lambda>e. if name e = ''Zuhr''
                     then \<lparr>azan = khutbah j, iqamah = jamaat j, name = ''Jumma''\<rparr>
                     else e) (base_entries p)
      else base_entries p)"

text \<open>
  Lines 347-385: the local variables of the resolver at the end of the computation.
  The schedule read here always has five entries, so \<^verbatim>\<open>schedule[0]\<close>,
  \<^verbatim>\<open>schedule[4]\<close> and \<^verbatim>\<open>schedule[nextIndex - 1]\<close> are in range.
\<close>

record Locals =
  nextIndex :: int
  next_entry :: Entry
  isTomorrow_l :: bool
  prevPrayerTime :: jsnum
  nextPrayerTime :: jsnum
  totalDuration :: jsnum
  elapsed :: jsnum
  progress_l :: "rat option"

text \<open>
  \<^verbatim>\<open>if (totalDuration > 0) progress = Math.min(100, Math.max(0, elapsed / totalDuration * 100))\<close>,
  on exact rationals; \<^verbatim>\<open>Math.max\<close> and \<^verbatim>\<open>Math.min\<close> return \<^verbatim>\<open>NaN\<close> on a \<^verbatim>\<open>NaN\<close> argument.
\<close>

definition progress_of :: "jsnum \<Rightarrow> jsnum \<Rightarrow> rat option" where
  "progress_of el tot =
     (if num_gt tot (Some 0)
      then (case (el, tot) of
              (Some e, Some t) \<Rightarrow> Some (min 100 (max 0 (of_int e / of_int t * 100)))
            | _ \<Rightarrow> None)
      else Some 0)"

definition resolve :: "Entry list \<Rightarrow> int \<Rightarrow> Locals" where
  "resolve sched currentMinutes =
     (let found = findIndex (\<lambda>p. num_gt (getMinutes (iqamah p)) (Some currentMinutes)) sched
      in if found = -1
         then
           (let nxt = sched ! 0;
                prev = getMinutes (iqamah (sched ! 4));
                nextT = num_add (getMinutes (iqamah nxt)) (Some (24 * 60));
                tot = num_sub nextT prev;
                el = num_sub (Some (currentMinutes + 24 * 60)) prev
            in \<lparr>nextIndex = 0, next_entry = nxt, isTomorrow_l = True,
                prevPrayerTime = prev, nextPrayerTime = nextT,
                totalDuration = tot, elapsed = el, progress_l = progress_of el tot\<rparr>)
         else
           (let nxt = sched ! nat found;
                prevIndex = (if found = 0 then 4 else found - 1);
                prev0 = getMinutes (iqamah (sched ! nat prevIndex));
                nextT = getMinutes (iqamah nxt);
                prev = (if found = 0 then num_sub prev0 (Some (24 * 60)) else prev0);
                tot = num_sub nextT prev;
                el = num_sub (Some currentMinutes) prev
            in \<lparr>nextIndex = found, next_entry = nxt, isTomorrow_l = False,
                prevPrayerTime = prev, nextPrayerTime = nextT,
                totalDuration = tot, elapsed = el, progress_l = progress_of el tot\<rparr>))"

record NextPrayer = Entry +
  isTomorrow :: bool
  progress :: "rat option"

text \<open>\<^verbatim>\<open>const currentMinutes = now.getHours() * 60 + now.getMinutes();\<close>\<close>

definition currentMinutes :: "int \<Rightarrow> Date \<Rightarrow> int" where
  "currentMinutes tz now = Date_getHours tz now * 60 + Date_getMinutes tz now"

text \<open>The returned object \<^verbatim>\<open>{ ...next, isTomorrow, progress }\<close>.\<close>

definition returned :: "Locals \<Rightarrow> NextPrayer" where
  "returned l =
     \<lparr>azan = azan (next_entry l), iqamah = iqamah (next_entry l), name = name (next_entry l),
      isTomorrow = isTomorrow_l l, progress = progress_l l\<rparr>"

text \<open>
  \<^verbatim>\<open>nextPrayerState\<close>: \<^verbatim>\<open>null\<close> without data; reading \<^verbatim>\<open>data.prayers.fajr\<close> on data
  without \<^verbatim>\<open>prayers\<close> is a TypeError.
\<close>

definition nextPrayerState :: "int \<Rightarrow> AppData option \<Rightarrow> Date \<Rightarrow> exn + NextPrayer option" where
  "nextPrayerState tz data now =
     (case data of
        None \<Rightarrow> Inr None
      | Some d \<Rightarrow>
          (case prayers d of
             None \<Rightarrow> Inl TypeError
           | Some p \<Rightarrow>
               (let isFri = (Date_getDay tz now = 5);
                    l = resolve (schedule p (jumma d) isFri) (currentMinutes tz now)
                in Inr (Some (returned l)))))"


section \<open>Effects: local storage, console, promises\<close>

text \<open>
  A string kept in local storage or received as a response body, by what \<^verbatim>\<open>JSON.parse\<close>
  makes of it: the empty string, a non-empty string that is not JSON, or the JSON text
  of a value. \<^verbatim>\<open>JSON.stringify\<close> yields the text of its argument and \<^verbatim>\<open>JSON.parse\<close>
  reads it back. A JSON value is \<^verbatim>\<open>null\<close>, a primitive (with its truthiness) or an
  object, given by its \<^verbatim>\<open>AppData\<close> fields.
\<close>

datatype json = JNull | JPrimitive bool | JObject AppData

datatype rawtext = Empty | NotJson | Stringified json

record SessionData =
  user :: User
  expiry :: int

text \<open>
  The two keys of \<^verbatim>\<open>localStorage\<close> the program uses: \<^verbatim>\<open>OFFLINE_KEY\<close> holds a string,
  \<^verbatim>\<open>SESSION_TOKEN\<close> the JSON text of a session. \<^verbatim>\<open>setItem\<close> and \<^verbatim>\<open>getItem\<close> always
  succeed (quota and access errors of the browser are not modelled).
\<close>

record Storage =
  OFFLINE_KEY :: "rawtext option"
  SESSION_TOKEN :: "SessionData option"

datatype log_entry = Warn string | LogError string

record World =
  localStorage :: Storage
  console :: "log_entry list"

text \<open>
  An asynchronous computation: it changes the world and its promise resolves (\<open>Inr\<close>)
  or rejects (\<open>Inl\<close>). \<open>try_catch\<close> is \<^verbatim>\<open>try { ... } catch (err) { ... }\<close>.
\<close>

type_synonym 'a io = "World \<Rightarrow> (exn + 'a) \<times> World"

definition io_return :: "'a \<Rightarrow> 'a io" where
  "io_return x = (\<lambda>w. (Inr x, w))"

definition io_throw :: "exn \<Rightarrow> 'a io" where
  "io_throw e = (\<lambda>w. (Inl e, w))"

definition io_bind :: "'a io \<Rightarrow> ('a \<Rightarrow> 'b io) \<Rightarrow> 'b io" where
  "io_bind m f = (\<lambda>w. case m w of (Inl e, w') \<Rightarrow> (Inl e, w') | (Inr x, w') \<Rightarrow> f x w')"

definition try_catch :: "'a io \<Rightarrow> (exn \<Rightarrow> 'a io) \<Rightarrow> 'a io" where
  "try_catch m h = (\<lambda>w. case m w of (Inl e, w') \<Rightarrow> h e w' | (Inr x, w') \<Rightarrow> (Inr x, w'))"

definition console_warn :: "string \<Rightarrow> unit io" where
  "console_warn msg = (\<lambda>w. (Inr (), w\<lparr>console := console w @ [Warn msg]\<rparr>))"

definition console_error :: "string \<Rightarrow> unit io" where
  "console_error msg = (\<lambda>w. (Inr (), w\<lparr>console := console w @ [LogError msg]\<rparr>))"

definition setItem_OFFLINE_KEY :: "rawtext \<Rightarrow> unit io" where
  "setItem_OFFLINE_KEY v =
     (\<lambda>w. (Inr (), w\<lparr>localStorage := (localStorage w)\<lparr>OFFLINE_KEY := Some v\<rparr>\<rparr>))"

definition getItem_OFFLINE_KEY :: "rawtext option io" where
  "getItem_OFFLINE_KEY = (\<lambda>w. (Inr (OFFLINE_KEY (localStorage w)), w))"

definition setItem_SESSION_TOKEN :: "SessionData \<Rightarrow> unit io" where
  "setItem_SESSION_TOKEN v =
     (\<lambda>w. (Inr (), w\<lparr>localStorage := (localStorage w)\<lparr>SESSION_TOKEN := Some v\<rparr>\<rparr>))"

definition JSON_stringify :: "AppData \<Rightarrow> rawtext" where
  "JSON_stringify d = Stringified (JObject d)"

definition JSON_parse :: "rawtext \<Rightarrow> json io" where
  "JSON_parse s = (case s of Stringified j \<Rightarrow> io_return j | _ \<Rightarrow> io_throw SyntaxError)"

text \<open>
  What one call of \<^verbatim>\<open>fetch(CLOUD_URL, ...)\<close> does is an input: the promise rejects
  (network failure) or yields a response with a status and a body;
  \<^verbatim>\<open>response.ok\<close> is a status from 200 to 299, \<^verbatim>\<open>response.json()\<close> rejects on a body
  that is not JSON.
\<close>

record Response =
  status :: nat
  body :: rawtext

datatype fetch_result = Rejected | Fulfilled Response

definition fetch :: "fetch_result \<Rightarrow> Response io" where
  "fetch r = (case r of Rejected \<Rightarrow> io_throw NetworkError | Fulfilled resp \<Rightarrow> io_return resp)"

definition ok :: "Response \<Rightarrow> bool" where
  "ok resp = (200 \<le> status resp \<and> status resp \<le> 299)"

definition response_json :: "Response \<Rightarrow> json io" where
  "response_json resp = JSON_parse (body resp)"

section \<open>Data synchronization (services/storage.ts)\<close>

text \<open>
  \<^verbatim>\<open>INITIAL_DATA\<close>; its two timestamps are \<^verbatim>\<open>new Date().toISOString()\<close> at the time the
  module is loaded, the parameter \<open>t0\<close>. The object is taken as never mutated by the
  callers it is returned to.
\<close>

definition INITIAL_DATA :: "string \<Rightarrow> AppData" where
  "INITIAL_DATA t0 =
     \<lparr>profile = \<lparr>profile_name = ''Masjid Al-Noor'', area = ''Downtown Community''\<rparr>,
      prayers = Some
        \<lparr>fajr = \<lparr>azan = ''05:30'', iqamah = ''06:00''\<rparr>,
         zuhr = \<lparr>azan = ''13:00'', iqamah = ''13:30''\<rparr>,
         asr = \<lparr>azan = ''16:30'', iqamah = ''17:00''\<rparr>,
         maghrib = \<lparr>azan = ''19:45'', iqamah = ''19:55''\<rparr>,
         isha = \<lparr>azan = ''21:00'', iqamah = ''21:30''\<rparr>\<rparr>,
      jumma = \<lparr>khutbah = ''13:15'', jamaat = ''13:45''\<rparr>,
      ramadan = \<lparr>ramadan_enabled = False, suhoor = ''04:45'', iftar = ''19:55''\<rparr>,
      notices =
        [\<lparr>notice_id = ''welcome-msg'', notice_title = ''System Connected'',
          message = ''The prayer display system is online and synced.'',
          date = t0, expiryDate = None, isImportant = False\<rparr>],
      users = Some
        [\<lparr>user_id = ''root-super-admin'', email = ''darzaid700@gmail.com'',
          password = Some ''darzaid123'', role = SUPER_ADMIN, enabled = True\<rparr>],
      links = Some [],
      lastUpdated = t0\<rparr>"

text \<open>\<^verbatim>\<open>if (!data.links) data.links = [];\<close>\<close>

definition migrate_links :: "AppData \<Rightarrow> AppData" where
  "migrate_links d = (if links d = None then d\<lparr>links := Some []\<rparr> else d)"

text \<open>
  Lines 91-95: \<^verbatim>\<open>if (data && data.prayers && data.users) { ...; cloudData = data; }\<close>.
  \<^verbatim>\<open>null\<close> and a falsy primitive stop at \<^verbatim>\<open>data\<close>, a truthy primitive has no
  \<^verbatim>\<open>prayers\<close>. The result is the value of \<^verbatim>\<open>cloudData\<close>.
\<close>

definition validated :: "json \<Rightarrow> AppData option" where
  "validated data =
     (case data of
        JObject d \<Rightarrow>
          (if prayers d \<noteq> None \<and> users d \<noteq> None then Some (migrate_links d) else None)
      | _ \<Rightarrow> None)"

text \<open>Lines 83-96, the body of the first \<^verbatim>\<open>try\<close>.\<close>

definition fetch_block :: "fetch_result \<Rightarrow> AppData option io" where
  "fetch_block r =
     io_bind (fetch r) (\<lambda>response.
       if ok response
       then io_bind (response_json response) (\<lambda>data. io_return (validated data))
       else io_return None)"

text \<open>
  Lines 111-113, the body of the second \<^verbatim>\<open>try\<close>. Reading \<^verbatim>\<open>links\<close> of \<^verbatim>\<open>null\<close> is a
  TypeError, and so is creating the property on a primitive (module code is strict).
\<close>

definition cache_block :: "rawtext \<Rightarrow> AppData io" where
  "cache_block cached =
     io_bind (JSON_parse cached) (\<lambda>parsed.
       case parsed of
         JNull \<Rightarrow> io_throw TypeError
       | JPrimitive b \<Rightarrow> io_throw TypeError
       | JObject d \<Rightarrow> io_return (migrate_links d))"

definition getCloudData :: "string \<Rightarrow> fetch_result \<Rightarrow> AppData io" where
  "getCloudData t0 r =
     io_bind
       (try_catch (fetch_block r)
          (\<lambda>err. io_bind (console_warn ''Cloud fetch failed, checking offline cache:'')
                    (\<lambda>_. io_return None)))
       (\<lambda>cloudData.
          case cloudData of
            Some d \<Rightarrow> io_bind (setItem_OFFLINE_KEY (JSON_stringify d)) (\<lambda>_. io_return d)
          | None \<Rightarrow>
              io_bind getItem_OFFLINE_KEY (\<lambda>cached.
                case cached of
                  None \<Rightarrow> io_return (INITIAL_DATA t0)
                | Some c \<Rightarrow>
                    if c = Empty then io_return (INITIAL_DATA t0)
                    else
                      io_bind
                        (try_catch
                           (io_bind (cache_block c) (\<lambda>parsed. io_return (Some parsed)))
                           (\<lambda>e. io_bind (console_warn ''Corrupt local cache, resetting.'')
                                  (\<lambda>_. io_return None)))
                        (\<lambda>returned.
                           case returned of
                             Some parsed \<Rightarrow> io_return parsed
                           | None \<Rightarrow> io_return (INITIAL_DATA t0))))"

text \<open>\<^verbatim>\<open>n.toString()\<close> of a natural number, and \<^verbatim>\<open>s.padStart(2, '0')\<close>.\<close>

fun toString :: "nat \<Rightarrow> string" where
  "toString n =
     (if n < 10 then [char_of (48 + n)] else toString (n div 10) @ [char_of (48 + n mod 10)])"

declare toString.simps [simp del]

definition padStart2 :: "string \<Rightarrow> string" where
  "padStart2 s = replicate (2 - length s) CHR ''0'' @ s"

text \<open>
  \<^verbatim>\<open>syncToCloud\<close>; \<open>now_iso\<close> is \<^verbatim>\<open>new Date().toISOString()\<close> at the call and \<open>r\<close> what
  the POST does.
\<close>

definition syncToCloud :: "string \<Rightarrow> fetch_result \<Rightarrow> AppData \<Rightarrow> unit io" where
  "syncToCloud now_iso r data =
     (let updatedData = data\<lparr>lastUpdated := now_iso\<rparr>
      in io_bind (setItem_OFFLINE_KEY (JSON_stringify updatedData)) (\<lambda>_.
           try_catch
             (io_bind (fetch r) (\<lambda>response.
                if \<not> ok response
                then (if status response = 404
                      then console_warn ''Cloud sync skipped (Bucket 404). Data saved locally.''
                      else io_throw (Error (''Sync failed with status: '' @ toString (status response))))
                else io_return ()))
             (\<lambda>err. console_error ''Non-critical Sync Error:'')))"


section \<open>Authentication (services/authService.ts, handleLogin)\<close>

text \<open>
  \<^verbatim>\<open>toLowerCase\<close> and \<^verbatim>\<open>trim\<close> on ASCII: the letters A to Z, and the white space
  characters space, tab, line feed, vertical tab, form feed and carriage return.
\<close>

definition lower_char :: "char \<Rightarrow> char" where
  "lower_char c = (let n = (of_char c :: nat) in if 65 \<le> n \<and> n \<le> 90 then char_of (n + 32) else c)"

definition toLowerCase :: "string \<Rightarrow> string" where
  "toLowerCase s = map lower_char s"

definition is_space :: "char \<Rightarrow> bool" where
  "is_space c = (let n = (of_char c :: nat) in n = 32 \<or> (9 \<le> n \<and> n \<le> 13))"

definition trim :: "string \<Rightarrow> string" where
  "trim s = rev (dropWhile is_space (rev (dropWhile is_space s)))"

definition SESSION_TIMEOUT_MS :: int where
  "SESSION_TIMEOUT_MS = 20 * 60 * 1000"

text \<open>
  The predicate of \<^verbatim>\<open>data.users.find\<close>:
  \<^verbatim>\<open>u.email.toLowerCase() === email.toLowerCase().trim() && u.password === password\<close>.
\<close>

definition credentials_match :: "string \<Rightarrow> string \<Rightarrow> User \<Rightarrow> bool" where
  "credentials_match email_in password_in u =
     (toLowerCase (email u) = trim (toLowerCase email_in) \<and> password u = Some password_in)"

text \<open>
  \<^verbatim>\<open>authenticate\<close>; \<open>r\<close> is what the fetch of \<^verbatim>\<open>getCloudData\<close> does and \<open>now_ms\<close> is
  \<^verbatim>\<open>Date.now()\<close>. \<^verbatim>\<open>data.users.find\<close> on data without \<^verbatim>\<open>users\<close> is a TypeError.
\<close>

definition authenticate :: "string \<Rightarrow> fetch_result \<Rightarrow> int \<Rightarrow> string \<Rightarrow> string \<Rightarrow> User option io" where
  "authenticate t0 r now_ms email_in password_in =
     io_bind (getCloudData t0 r) (\<lambda>data.
       case users data of
         None \<Rightarrow> io_throw TypeError
       | Some us \<Rightarrow>
           (case find (credentials_match email_in password_in) us of
              None \<Rightarrow> io_return None
            | Some u \<Rightarrow>
                if enabled u
                then (let sessionUser = u\<lparr>password := None\<rparr>;
                          session = \<lparr>user = sessionUser, expiry = now_ms + SESSION_TIMEOUT_MS\<rparr>
                      in io_bind (setItem_SESSION_TOKEN session) (\<lambda>_. io_return (Some sessionUser)))
                else io_return None))"

datatype ViewState = PUBLIC | LOGIN | DASHBOARD

record UI =
  view :: ViewState
  currentUser :: "User option"
  loginEmail :: string
  loginPassword :: string
  loginError :: string
  isSyncing :: bool

text \<open>\<^verbatim>\<open>handleLogin\<close>: the component state after the handler has run to its end.\<close>

definition handleLogin :: "string \<Rightarrow> fetch_result \<Rightarrow> int \<Rightarrow> UI \<Rightarrow> UI io" where
  "handleLogin t0 r now_ms ui =
     io_bind (authenticate t0 r now_ms (loginEmail ui) (loginPassword ui)) (\<lambda>u.
       io_return
         ((case u of
             Some usr \<Rightarrow> ui\<lparr>currentUser := Some usr, view := DASHBOARD, loginError := [],
                            loginEmail := [], loginPassword := []\<rparr>
           | None \<Rightarrow> ui\<lparr>loginError := ''Invalid masjid credentials or disabled account.''\<rparr>)
          \<lparr>isSyncing := False\<rparr>))"

section \<open>Notice visibility filter (activeNotices)\<close>

text \<open>
  \<^verbatim>\<open>new Date(s).getTime()\<close> for the two forms of string the program writes: the date
  \<^verbatim>\<open>YYYY-MM-DD\<close> of a date input, which ECMAScript reads as midnight UTC, and the
  \<^verbatim>\<open>YYYY-MM-DDTHH:mm:ss.sssZ\<close> of \<^verbatim>\<open>toISOString\<close>. Anything else is an invalid date
  here (\<^verbatim>\<open>NaN\<close>). The day number of a civil date is counted from 1 January 1970.
\<close>

definition leap :: "int \<Rightarrow> bool" where
  "leap y = (y mod 4 = 0 \<and> (y mod 100 \<noteq> 0 \<or> y mod 400 = 0))"

definition days_in_month :: "int \<Rightarrow> int \<Rightarrow> int" where
  "days_in_month y m =
     (if m = 2 then (if leap y then 29 else 28)
      else if m = 4 \<or> m = 6 \<or> m = 9 \<or> m = 11 then 30 else 31)"

definition days_from_civil :: "int \<Rightarrow> int \<Rightarrow> int \<Rightarrow> int" where
  "days_from_civil y m d =
     (let y' = (if m \<le> 2 then y - 1 else y);
          era = y' div 400;
          yoe = y' - era * 400;
          doy = (153 * (if m > 2 then m - 3 else m + 9) + 2) div 5 + d - 1;
          doe = yoe * 365 + yoe div 4 - yoe div 100 + doy
      in era * 146097 + doe - 719468)"

definition parse_ymd :: "string \<Rightarrow> int option" where
  "parse_ymd s =
     (if length s = 10 \<and> s ! 4 = CHR ''-'' \<and> s ! 7 = CHR ''-''
         \<and> list_all is_digit (take 4 s @ take 2 (drop 5 s) @ drop 8 s)
      then (let y = decimal (take 4 s); m = decimal (take 2 (drop 5 s)); d = decimal (drop 8 s)
            in if 1 \<le> m \<and> m \<le> 12 \<and> 1 \<le> d \<and> d \<le> days_in_month y m
               then Some (days_from_civil y m d) else None)
      else None)"

definition parse_hms :: "string \<Rightarrow> int option" where
  "parse_hms s =
     (if length s = 14 \<and> s ! 0 = CHR ''T'' \<and> s ! 3 = CHR '':'' \<and> s ! 6 = CHR '':''
         \<and> s ! 9 = CHR ''.'' \<and> s ! 13 = CHR ''Z''
         \<and> list_all is_digit (take 2 (drop 1 s) @ take 2 (drop 4 s) @ take 2 (drop 7 s)
                               @ take 3 (drop 10 s))
      then (let h = decimal (take 2 (drop 1 s)); m = decimal (take 2 (drop 4 s));
                sec = decimal (take 2 (drop 7 s)); ms = decimal (take 3 (drop 10 s))
            in if h \<le> 23 \<and> m \<le> 59 \<and> sec \<le> 59
               then Some (h * 3600000 + m * 60000 + sec * 1000 + ms) else None)
      else None)"

definition Date_parse :: "string \<Rightarrow> jsnum" where
  "Date_parse s =
     (case parse_ymd (take 10 s) of
        None \<Rightarrow> None
      | Some days \<Rightarrow>
          if drop 10 s = [] then Some (days * 86400000)
          else (case parse_hms (drop 10 s) of
                  None \<Rightarrow> None
                | Some ms \<Rightarrow> Some (days * 86400000 + ms)))"

text \<open>
  \<^verbatim>\<open>new Date(x.getFullYear(), x.getMonth(), x.getDate()).getTime()\<close>: local midnight of
  the local calendar day of \<open>x\<close> (for years from 100 on).
\<close>

definition localDay :: "int \<Rightarrow> Date \<Rightarrow> int" where
  "localDay tz t = localTime tz t div 86400000"

definition startOfDay :: "int \<Rightarrow> Date \<Rightarrow> Date" where
  "startOfDay tz t = localDay tz t * 86400000 - tz * 60000"

text \<open>
  \<^verbatim>\<open>Array.prototype.sort\<close> with a comparator: stable, \<^verbatim>\<open>a\<close> stays before \<^verbatim>\<open>b\<close> unless
  \<^verbatim>\<open>cmp(a, b) > 0\<close>; a \<^verbatim>\<open>NaN\<close> result counts as 0. (With a comparator that is not a
  consistent order the result depends on the engine; this is insertion order.)
\<close>

fun insert_by :: "('a \<Rightarrow> 'a \<Rightarrow> jsnum) \<Rightarrow> 'a \<Rightarrow> 'a list \<Rightarrow> 'a list" where
  "insert_by cmp x [] = [x]"
| "insert_by cmp x (y # ys) =
     (if num_gt (cmp x y) (Some 0) then y # insert_by cmp x ys else x # y # ys)"

definition sort_by :: "('a \<Rightarrow> 'a \<Rightarrow> jsnum) \<Rightarrow> 'a list \<Rightarrow> 'a list" where
  "sort_by cmp xs = foldr (insert_by cmp) xs []"

text \<open>The predicate of the \<^verbatim>\<open>filter\<close>, lines 306-319; \<open>today\<close> is the local midnight of now.\<close>

definition notice_visible :: "int \<Rightarrow> Date \<Rightarrow> Notice \<Rightarrow> bool" where
  "notice_visible tz today n =
     (case expiryDate n of
        None \<Rightarrow> True
      | Some e \<Rightarrow>
          if e = [] then True
          else (case Date_parse e of
                  None \<Rightarrow> False
                | Some ex \<Rightarrow> startOfDay tz ex \<ge> today))"

definition activeNotices :: "int \<Rightarrow> AppData option \<Rightarrow> Date \<Rightarrow> Notice list" where
  "activeNotices tz data now =
     (case data of
        None \<Rightarrow> []
      | Some d \<Rightarrow>
          (let today = startOfDay tz now
           in sort_by (\<lambda>a b. num_sub (Date_parse (date b)) (Date_parse (date a)))
                (filter (notice_visible tz today) (notices d))))"

section \<open>Countdown formatter (countdownStr)\<close>

text \<open>
  \<^verbatim>\<open>target.setHours(h, m, 0, 0)\<close> on a copy of now, one day added when the prayer is
  tomorrow's; a \<^verbatim>\<open>NaN\<close> hour or minute makes the date invalid and every later number
  \<^verbatim>\<open>NaN\<close>.
\<close>

definition countdownStr :: "int \<Rightarrow> NextPrayer option \<Rightarrow> Date \<Rightarrow> string" where
  "countdownStr tz nps now =
     (case nps of
        None \<Rightarrow> ''--:--:--''
      | Some n \<Rightarrow>
          (let target0 =
                 (case map Number (split CHR '':'' (iqamah n)) of
                    Some h # Some m # _ \<Rightarrow> Some (startOfDay tz now + h * 3600000 + m * 60000)
                  | _ \<Rightarrow> None);
               target = (if isTomorrow n then num_add target0 (Some 86400000) else target0)
           in case num_sub target (Some now) of
                None \<Rightarrow> ''NaN:NaN:NaN''
              | Some diff \<Rightarrow>
                  if diff < 0 then ''00:00:00''
                  else (let hh = diff div (1000 * 60 * 60);
                            mm = (diff mod (1000 * 60 * 60)) div (1000 * 60);
                            ss = (diff mod (1000 * 60)) div 1000
                        in padStart2 (toString (nat hh)) @ '':'' @ padStart2 (toString (nat mm))
                           @ '':'' @ padStart2 (toString (nat ss)))))"

section \<open>Vocabulary of the specification and example data\<close>

text \<open>"The entry's iqamah minute value exceeds the current minutes."\<close>

abbreviation exceeds :: "int \<Rightarrow> Entry \<Rightarrow> bool" where
  "exceeds cur p \<equiv> num_gt (getMinutes (iqamah p)) (Some cur)"

text \<open>The schedule of the examples of the specification (that of \<^verbatim>\<open>INITIAL_DATA\<close>).\<close>

definition example_prayers :: DailyPrayers where
  "example_prayers =
     \<lparr>fajr = \<lparr>azan = ''05:30'', iqamah = ''06:00''\<rparr>,
      zuhr = \<lparr>azan = ''13:00'', iqamah = ''13:30''\<rparr>,
      asr = \<lparr>azan = ''16:30'', iqamah = ''17:00''\<rparr>,
      maghrib = \<lparr>azan = ''19:45'', iqamah = ''19:55''\<rparr>,
      isha = \<lparr>azan = ''21:00'', iqamah = ''21:30''\<rparr>\<rparr>"

definition example_data :: AppData where
  "example_data = INITIAL_DATA ''2024-05-01T10:00:00.000Z''"

definition example_schedule :: "Entry list" where
  "example_schedule = schedule example_prayers \<lparr>khutbah = ''13:15'', jamaat = ''13:45''\<rparr> False"

text \<open>
  The countdown in the words of the specification: the target instant is the date of
  today, or of tomorrow, combined with the iqamah time (so many minutes after local
  midnight); the remaining duration is rendered as hours, minutes and seconds of two
  decimal digits each, rounded down to the second, and a negative one as zeros.
\<close>

definition local_midnight :: "int \<Rightarrow> Date \<Rightarrow> Date" where
  "local_midnight tz now = now - (now + tz * 60000) mod 86400000"

definition target_instant :: "int \<Rightarrow> Date \<Rightarrow> bool \<Rightarrow> int \<Rightarrow> Date" where
  "target_instant tz now tomorrow minutes =
     local_midnight tz now + (if tomorrow then 86400000 else 0) + minutes * 60000"

definition two_digits :: "int \<Rightarrow> string" where
  "two_digits n = [char_of (48 + nat n div 10), char_of (48 + nat n mod 10)]"

definition hhmmss :: "int \<Rightarrow> string" where
  "hhmmss secs =
     two_digits (secs div 3600) @ '':'' @ two_digits (secs div 60 mod 60) @ '':''
     @ two_digits (secs mod 60)"

definition countdown_spec :: "int \<Rightarrow> bool \<Rightarrow> int \<Rightarrow> Date \<Rightarrow> string" where
  "countdown_spec tz tomorrow minutes now =
     (let remaining = target_instant tz now tomorrow minutes - now
      in if remaining < 0 then ''00:00:00'' else hhmmss (remaining div 1000))"


text \<open>
  Loading in the words of the specification. The remote fetch succeeds with a payload
  of the required shape when the promise is fulfilled with an OK status and a JSON
  object that has \<^verbatim>\<open>prayers\<close> and \<^verbatim>\<open>users\<close>; every other outcome (network error,
  non-OK status, malformed JSON, missing required fields) is a failure. A state is
  back-filled by giving it the empty list of links when it has none. The local cache
  is parseable when it holds the JSON text of an object. A state is usable when
  \<^verbatim>\<open>prayers\<close>, \<^verbatim>\<open>users\<close> and \<^verbatim>\<open>links\<close> are all present.
\<close>

definition usable_payload :: "fetch_result \<Rightarrow> AppData option" where
  "usable_payload r =
     (case r of
        Rejected \<Rightarrow> None
      | Fulfilled resp \<Rightarrow>
          if 200 \<le> status resp \<and> status resp \<le> 299
          then (case body resp of
                  Stringified (JObject d) \<Rightarrow>
                    if prayers d \<noteq> None \<and> users d \<noteq> None then Some d else None
                | _ \<Rightarrow> None)
          else None)"

definition fetch_failed :: "fetch_result \<Rightarrow> bool" where
  "fetch_failed r =
     (case r of
        Rejected \<Rightarrow> True
      | Fulfilled resp \<Rightarrow>
          status resp < 200 \<or> 299 < status resp
          \<or> (case body resp of
                Stringified (JObject d) \<Rightarrow> prayers d = None \<or> users d = None
              | _ \<Rightarrow> True))"

definition back_filled :: "AppData \<Rightarrow> AppData" where
  "back_filled d = d\<lparr>links := Some (case links d of None \<Rightarrow> [] | Some l \<Rightarrow> l)\<rparr>"

definition parseable_cache :: "World \<Rightarrow> AppData option" where
  "parseable_cache w =
     (case OFFLINE_KEY (localStorage w) of
        Some (Stringified (JObject d)) \<Rightarrow> Some d
      | _ \<Rightarrow> None)"

definition usable :: "AppData \<Rightarrow> bool" where
  "usable d = (prayers d \<noteq> None \<and> users d \<noteq> None \<and> links d \<noteq> None)"

text \<open>
  The local cache is a slot for the last known good state: what it holds, when it can be
  parsed, has \<^verbatim>\<open>prayers\<close> and \<^verbatim>\<open>users\<close>. Both writers of the slot keep it so.
\<close>

definition cache_ok :: "World \<Rightarrow> bool" where
  "cache_ok w = (case parseable_cache w of None \<Rightarrow> True
                 | Some c \<Rightarrow> prayers c \<noteq> None \<and> users c \<noteq> None)"

text \<open>The state \<^verbatim>\<open>load\<close> returns and the local storage it leaves.\<close>

definition load_spec :: "string \<Rightarrow> fetch_result \<Rightarrow> World \<Rightarrow> AppData \<times> Storage" where
  "load_spec t0 r w =
     (case usable_payload r of
        Some p \<Rightarrow>
          (back_filled p,
           (localStorage w)\<lparr>OFFLINE_KEY := Some (Stringified (JObject (back_filled p)))\<rparr>)
      | None \<Rightarrow>
          (case parseable_cache w of
             Some c \<Rightarrow> (back_filled c, localStorage w)
           | None \<Rightarrow> (INITIAL_DATA t0, localStorage w)))"

text \<open>What \<^verbatim>\<open>save\<close> logs for each outcome of the remote write.\<close>

definition sync_log :: "fetch_result \<Rightarrow> log_entry list" where
  "sync_log r =
     (case r of
        Rejected \<Rightarrow> [LogError ''Non-critical Sync Error:'']
      | Fulfilled resp \<Rightarrow>
          if 200 \<le> status resp \<and> status resp \<le> 299 then []
          else if status resp = 404
               then [Warn ''Cloud sync skipped (Bucket 404). Data saved locally.'']
               else [LogError ''Non-critical Sync Error:''])"

text \<open>Worlds and a login form for the examples.\<close>

definition example_world :: World where
  "example_world =
     \<lparr>localStorage = \<lparr>OFFLINE_KEY = Some (Stringified (JObject example_data)),
                       SESSION_TOKEN = None\<rparr>,
      console = []\<rparr>"

definition empty_world :: World where
  "empty_world = \<lparr>localStorage = \<lparr>OFFLINE_KEY = None, SESSION_TOKEN = None\<rparr>, console = []\<rparr>"

definition disabled_world :: World where
  "disabled_world =
     \<lparr>localStorage =
        \<lparr>OFFLINE_KEY = Some (Stringified (JObject (example_data
            \<lparr>users := Some [\<lparr>user_id = ''a1'', email = ''Imam@Example.org'',
                               password = Some ''secret'', role = ADMIN, enabled = False\<rparr>]\<rparr>))),
         SESSION_TOKEN = None\<rparr>,
      console = []\<rparr>"

definition example_ui :: UI where
  "example_ui = \<lparr>view = LOGIN, currentUser = None, loginEmail = ''nobody@example.org'',
                 loginPassword = ''darzaid123'', loginError = [], isSyncing = False\<rparr>"

text \<open>The form after a failed login: the one generic message.\<close>

definition login_failed :: "UI \<Rightarrow> UI" where
  "login_failed ui =
     ui\<lparr>loginError := ''Invalid masjid credentials or disabled account.'', isSyncing := False\<rparr>"

text \<open>
  The notice of the example: created on 1 May 2024, expiring on 10 May 2024.
\<close>

definition example_notice :: Notice where
  "example_notice =
     \<lparr>notice_id = ''n1'', notice_title = ''Eid prayer'', message = ''Eid prayer at 07:00'',
      date = ''2024-05-01T10:00:00.000Z'', expiryDate = Some ''2024-05-10'',
      isImportant = False\<rparr>"


text \<open>The world after a fetch that failed and was logged.\<close>

definition after_failed_fetch :: "World \<Rightarrow> World" where
  "after_failed_fetch w = w\<lparr>console := console w @ [Warn ''Cloud fetch failed, checking offline cache:'']\<rparr>"

section \<open>The next-prayer resolver\<close>

lemma all_less_5: "(\<forall>i<5::nat. P i) = (P 0 \<and> P 1 \<and> P 2 \<and> P 3 \<and> P 4)"
  by (auto simp: less_Suc_eq numeral_eq_Suc)

lemma findIndex_none: "findIndex P xs = -1 \<longleftrightarrow> (\<forall>x\<in>set xs. \<not> P x)"
  and findIndex_range: "- 1 \<le> findIndex P xs \<and> findIndex P xs < int (length xs)"
  by (induction xs) (auto simp: Let_def)

lemma findIndex_first:
  "i < length xs \<Longrightarrow> P (xs ! i) \<Longrightarrow> (\<forall>j<i. \<not> P (xs ! j)) \<Longrightarrow> findIndex P xs = int i"
proof (induction xs arbitrary: i)
  case Nil
  then show ?case by simp
next
  case (Cons x xs)
  show ?case
  proof (cases i)
    case 0
    with Cons.prems show ?thesis by simp
  next
    case (Suc k)
    with Cons.prems have nx: "\<not> P x" by auto
    from Suc Cons.prems have "k < length xs" "P (xs ! k)" "\<forall>j<k. \<not> P (xs ! j)" by auto
    then have "findIndex P xs = int k" by (rule Cons.IH)
    with nx Suc show ?thesis by (simp add: Let_def)
  qed
qed

lemma findIndex_passes:
  "findIndex P xs \<noteq> -1 \<Longrightarrow> P (xs ! nat (findIndex P xs))"
proof (induction xs)
  case Nil
  then show ?case by simp
next
  case (Cons x xs)
  show ?case
  proof (cases "P x")
    case True
    then show ?thesis by simp
  next
    case False
    with Cons.prems have ne: "findIndex P xs \<noteq> -1" by (auto simp: Let_def split: if_splits)
    moreover have "0 \<le> findIndex P xs" using findIndex_range[of P xs] ne by linarith
    ultimately show ?thesis using False Cons.IH
      by (simp add: Let_def nat_add_distrib)
  qed
qed

lemma resolve_found:
  assumes "i < length sched" "exceeds cur (sched ! i)" "\<forall>j<i. \<not> exceeds cur (sched ! j)"
  shows "nextIndex (resolve sched cur) = int i \<and> next_entry (resolve sched cur) = sched ! i
         \<and> \<not> isTomorrow_l (resolve sched cur)"
proof -
  have "findIndex (exceeds cur) sched = int i"
    using assms by (intro findIndex_first) auto
  then show ?thesis by (simp add: resolve_def Let_def)
qed

lemma resolve_none:
  assumes "\<forall>i<length sched. \<not> exceeds cur (sched ! i)"
  shows "nextIndex (resolve sched cur) = 0 \<and> next_entry (resolve sched cur) = sched ! 0
         \<and> isTomorrow_l (resolve sched cur)"
proof -
  have "\<forall>x\<in>set sched. \<not> exceeds cur x"
    using assms by (auto simp: in_set_conv_nth)
  then have "findIndex (exceeds cur) sched = -1" by (simp add: findIndex_none)
  then show ?thesis by (simp add: resolve_def Let_def)
qed

lemma resolve_today_exceeds:
  assumes "\<not> isTomorrow_l (resolve sched cur)"
  shows "exceeds cur (sched ! nat (nextIndex (resolve sched cur)))"
proof -
  from assms have ne: "findIndex (exceeds cur) sched \<noteq> -1"
    by (auto simp: resolve_def Let_def split: if_splits)
  then have "nextIndex (resolve sched cur) = findIndex (exceeds cur) sched"
    by (simp add: resolve_def Let_def)
  with findIndex_passes[OF ne] show ?thesis by simp
qed

lemma getMinutes_examples:
  "getMinutes ''06:00'' = Some 360" "getMinutes ''13:30'' = Some 810"
  "getMinutes ''17:00'' = Some 1020" "getMinutes ''19:55'' = Some 1195"
  "getMinutes ''21:30'' = Some 1290" "getMinutes ''13:45'' = Some 825"
  by code_simp+

lemma example_schedule_entries:
  "example_schedule =
     [\<lparr>azan = ''05:30'', iqamah = ''06:00'', name = ''Fajr''\<rparr>,
      \<lparr>azan = ''13:00'', iqamah = ''13:30'', name = ''Zuhr''\<rparr>,
      \<lparr>azan = ''16:30'', iqamah = ''17:00'', name = ''Asr''\<rparr>,
      \<lparr>azan = ''19:45'', iqamah = ''19:55'', name = ''Maghrib''\<rparr>,
      \<lparr>azan = ''21:00'', iqamah = ''21:30'', name = ''Isha''\<rparr>]"
  by (simp add: example_schedule_def schedule_def base_entries_def example_prayers_def)

text \<open>
  C1. For a schedule of five entries and any current minutes: the resolver returns the
  first entry whose iqamah minutes exceed the current minutes, not flagged as tomorrow;
  when no entry exceeds them it returns the first entry flagged as tomorrow; and an
  entry whose iqamah minutes equal the current minutes is never returned as a prayer
  of today.
\<close>

theorem next_prayer_first_exceeding:
  assumes "length sched = 5"
  shows "(\<forall>i<5. exceeds cur (sched ! i) \<and> (\<forall>j<i. \<not> exceeds cur (sched ! j)) \<longrightarrow>
            next_entry (resolve sched cur) = sched ! i \<and> \<not> isTomorrow_l (resolve sched cur))
       \<and> ((\<forall>i<5. \<not> exceeds cur (sched ! i)) \<longrightarrow>
            next_entry (resolve sched cur) = sched ! 0 \<and> isTomorrow_l (resolve sched cur))
       \<and> (\<forall>i<5. getMinutes (iqamah (sched ! i)) = Some cur \<longrightarrow>
            \<not> (nextIndex (resolve sched cur) = int i \<and> \<not> isTomorrow_l (resolve sched cur)))"
proof (intro conjI allI impI)
  fix i :: nat
  assume "i < 5" and h: "exceeds cur (sched ! i) \<and> (\<forall>j<i. \<not> exceeds cur (sched ! j))"
  then have "i < length sched" using assms by simp
  with h resolve_found[of i sched cur]
  show "next_entry (resolve sched cur) = sched ! i" and "\<not> isTomorrow_l (resolve sched cur)"
    by simp_all
next
  assume h: "\<forall>i<5. \<not> exceeds cur (sched ! i)"
  with assms resolve_none[of sched cur]
  show "next_entry (resolve sched cur) = sched ! 0" and "isTomorrow_l (resolve sched cur)"
    by simp_all
next
  fix i :: nat
  assume "i < 5" and eq: "getMinutes (iqamah (sched ! i)) = Some cur"
  show "\<not> (nextIndex (resolve sched cur) = int i \<and> \<not> isTomorrow_l (resolve sched cur))"
  proof
    assume a: "nextIndex (resolve sched cur) = int i \<and> \<not> isTomorrow_l (resolve sched cur)"
    then have "exceeds cur (sched ! i)" using resolve_today_exceeds[of sched cur] by simp
    with eq show False by (simp add: num_gt_def)
  qed
qed

text \<open>
  At 13:30, the iqamah of Zuhr, the example schedule resolves to Asr; at 21:30, the
  iqamah of Isha, to Fajr of tomorrow.
\<close>

theorem next_prayer_first_exceeding_witness:
  "length example_schedule = 5
   \<and> next_entry (resolve example_schedule 810)
       = \<lparr>azan = ''16:30'', iqamah = ''17:00'', name = ''Asr''\<rparr>
   \<and> \<not> isTomorrow_l (resolve example_schedule 810)
   \<and> next_entry (resolve example_schedule 1290)
       = \<lparr>azan = ''05:30'', iqamah = ''06:00'', name = ''Fajr''\<rparr>
   \<and> isTomorrow_l (resolve example_schedule 1290)"
proof -
  have len: "length example_schedule = 5" by (simp add: example_schedule_entries)
  have nth:
    "example_schedule ! 0 = \<lparr>azan = ''05:30'', iqamah = ''06:00'', name = ''Fajr''\<rparr>"
    "example_schedule ! Suc 0 = \<lparr>azan = ''13:00'', iqamah = ''13:30'', name = ''Zuhr''\<rparr>"
    "example_schedule ! 2 = \<lparr>azan = ''16:30'', iqamah = ''17:00'', name = ''Asr''\<rparr>"
    "example_schedule ! 3 = \<lparr>azan = ''19:45'', iqamah = ''19:55'', name = ''Maghrib''\<rparr>"
    "example_schedule ! 4 = \<lparr>azan = ''21:00'', iqamah = ''21:30'', name = ''Isha''\<rparr>"
    by (simp_all add: example_schedule_entries)
  have lt2: "\<And>P. (\<forall>j<2::nat. P j) = (P 0 \<and> P 1)"
    by (auto simp: less_Suc_eq numeral_eq_Suc)
  from next_prayer_first_exceeding[OF len, of 810] have
    "exceeds 810 (example_schedule ! 2) \<and> (\<forall>j<2. \<not> exceeds 810 (example_schedule ! j)) \<longrightarrow>
       next_entry (resolve example_schedule 810) = example_schedule ! 2
       \<and> \<not> isTomorrow_l (resolve example_schedule 810)"
    by (simp add: all_less_5)
  then have a: "next_entry (resolve example_schedule 810) = example_schedule ! 2
      \<and> \<not> isTomorrow_l (resolve example_schedule 810)"
    by (simp add: lt2 nth getMinutes_examples num_gt_def)
  from next_prayer_first_exceeding[OF len, of 1290] have
    "(\<forall>i<5. \<not> exceeds 1290 (example_schedule ! i)) \<longrightarrow>
       next_entry (resolve example_schedule 1290) = example_schedule ! 0
       \<and> isTomorrow_l (resolve example_schedule 1290)"
    by blast
  then have b: "next_entry (resolve example_schedule 1290) = example_schedule ! 0
      \<and> isTomorrow_l (resolve example_schedule 1290)"
    by (simp add: all_less_5 nth getMinutes_examples num_gt_def)
  from len a b show ?thesis by (simp add: nth)
qed

lemma schedule_weekday: "schedule p j False = base_entries p"
  by (simp add: schedule_def)

lemma schedule_friday:
  "schedule p j True
     = (base_entries p)[1 := \<lparr>azan = khutbah j, iqamah = jamaat j, name = ''Jumma''\<rparr>]"
  by (simp add: schedule_def base_entries_def)

lemma nextPrayerState_resolve:
  "prayers d = Some p \<Longrightarrow>
   nextPrayerState tz (Some d) now =
     Inr (Some (returned (resolve (schedule p (jumma d) (Date_getDay tz now = 5))
                                  (currentMinutes tz now))))"
  by (simp add: nextPrayerState_def Let_def)

text \<open>
  C4. The schedule the resolver is run on has five entries and agrees with the plain
  daily schedule at every position but the second. On a Friday its second entry is
  Jumma, with the khutbah as azan and the jamaat as iqamah, and no entry is named Zuhr;
  on any other day its second entry is Zuhr and no entry is named Jumma.
\<close>

theorem friday_schedule_jumma:
  assumes "prayers d = Some p"
  shows "\<exists>sched.
      sched = schedule p (jumma d) (Date_getDay tz now = 5)
    \<and> nextPrayerState tz (Some d) now
        = Inr (Some (returned (resolve sched (currentMinutes tz now))))
    \<and> length sched = 5
    \<and> (\<forall>i<5. i \<noteq> 1 \<longrightarrow> sched ! i = base_entries p ! i)
    \<and> (if Date_getDay tz now = 5
        then sched ! 1 = \<lparr>azan = khutbah (jumma d), iqamah = jamaat (jumma d), name = ''Jumma''\<rparr>
             \<and> ''Zuhr'' \<notin> set (map name sched)
        else sched ! 1 = \<lparr>azan = azan (zuhr p), iqamah = iqamah (zuhr p), name = ''Zuhr''\<rparr>
             \<and> ''Jumma'' \<notin> set (map name sched))"
proof (cases "Date_getDay tz now = 5")
  case True
  then show ?thesis
    using nextPrayerState_resolve[OF assms, of tz now]
    by (simp add: schedule_friday all_less_5) (simp add: base_entries_def)
next
  case False
  then show ?thesis
    using nextPrayerState_resolve[OF assms, of tz now]
    by (simp add: schedule_weekday all_less_5) (simp add: base_entries_def)
qed

lemma example_data_prayers: "prayers example_data = Some example_prayers"
  by (simp add: example_data_def INITIAL_DATA_def example_prayers_def)

lemma example_data_jumma: "jumma example_data = \<lparr>khutbah = ''13:15'', jamaat = ''13:45''\<rparr>"
  by (simp add: example_data_def INITIAL_DATA_def)

text \<open>10 May 2024, 20:00 UTC, is a Friday.\<close>

theorem friday_schedule_jumma_witness:
  "prayers example_data = Some example_prayers
   \<and> Date_getDay 0 1715371200000 = 5
   \<and> schedule example_prayers (jumma example_data) True ! 1
       = \<lparr>azan = ''13:15'', iqamah = ''13:45'', name = ''Jumma''\<rparr>
   \<and> ''Zuhr'' \<notin> set (map name (schedule example_prayers (jumma example_data) True))"
proof -
  have f: "Date_getDay 0 1715371200000 = 5" by (simp add: Date_getDay_def localTime_def)
  from friday_schedule_jumma[OF example_data_prayers, of 0 1715371200000] f
  show ?thesis by (simp add: example_data_prayers example_data_jumma)
qed

lemma resolve_tomorrow_window:
  assumes "isTomorrow_l (resolve sched cur)"
  shows "prevPrayerTime (resolve sched cur) = getMinutes (iqamah (sched ! 4))
       \<and> nextPrayerTime (resolve sched cur) = num_add (getMinutes (iqamah (sched ! 0))) (Some 1440)
       \<and> totalDuration (resolve sched cur)
           = num_sub (nextPrayerTime (resolve sched cur)) (prevPrayerTime (resolve sched cur))"
  using assms by (auto simp: resolve_def Let_def split: if_splits)

text \<open>
  C6, evaluated. With iqamah times 06:00, 13:30, 17:00, 19:55 and 21:30, at 22:00 on a
  day that is not a Friday, the resolver returns Fajr flagged as tomorrow; the previous
  prayer time is 1290, the next prayer time 1800 (the first iqamah plus 1440, as always
  when the result is flagged as tomorrow) and the total duration 510 minutes. The
  elapsed time it sets against that window is 1470 minutes, not the 30 minutes since
  21:30, and the returned progress is 100, not 100/17.
\<close>

theorem overnight_window_example:
  assumes "prayers d = Some p"
    and "iqamah (fajr p) = ''06:00''" "iqamah (zuhr p) = ''13:30''" "iqamah (asr p) = ''17:00''"
        "iqamah (maghrib p) = ''19:55''" "iqamah (isha p) = ''21:30''"
    and "Date_getHours tz now = 22" "Date_getMinutes tz now = 0" "Date_getDay tz now \<noteq> 5"
  shows "\<exists>l. nextPrayerState tz (Some d) now = Inr (Some (returned l))
      \<and> l = resolve (schedule p (jumma d) False) 1320
      \<and> name (returned l) = ''Fajr'' \<and> isTomorrow (returned l)
      \<and> prevPrayerTime l = Some 1290 \<and> nextPrayerTime l = Some 1800 \<and> totalDuration l = Some 510
      \<and> elapsed l = Some 1470 \<and> progress (returned l) = Some 100
      \<and> progress_of (Some (1320 - 1290)) (totalDuration l) = Some (100 / 17)
      \<and> (\<forall>sched cur. isTomorrow_l (resolve sched cur) \<longrightarrow>
            nextPrayerTime (resolve sched cur)
              = num_add (getMinutes (iqamah (sched ! 0))) (Some 1440))"
proof -
  have cm: "currentMinutes tz now = 1320" using assms(7,8) by (simp add: currentMinutes_def)
  have st: "nextPrayerState tz (Some d) now
      = Inr (Some (returned (resolve (schedule p (jumma d) False) 1320)))"
    using nextPrayerState_resolve[OF assms(1), of tz now] assms(9) cm by simp
  have nf: "findIndex (exceeds 1320) (schedule p (jumma d) False) = -1"
    using assms(2-6)
    by (simp add: schedule_weekday base_entries_def getMinutes_examples num_gt_def Let_def)
  have l: "resolve (schedule p (jumma d) False) 1320 =
     \<lparr>nextIndex = 0, next_entry = \<lparr>azan = azan (fajr p), iqamah = ''06:00'', name = ''Fajr''\<rparr>,
      isTomorrow_l = True, prevPrayerTime = Some 1290, nextPrayerTime = Some 1800,
      totalDuration = Some 510, elapsed = Some 1470, progress_l = Some 100\<rparr>"
    unfolding resolve_def Let_def nf using assms(2-6)
    by (simp add: schedule_weekday base_entries_def getMinutes_examples num_add_def num_sub_def
        num_gt_def progress_of_def)
  have window: "progress_of (Some (1320 - 1290)) (Some 510) = Some (100 / 17)"
    by (simp add: progress_of_def num_gt_def)
  show ?thesis
    using st resolve_tomorrow_window window by (simp add: l returned_def)
qed

text \<open>8 May 2024, 22:00 UTC, is a Wednesday.\<close>

theorem overnight_window_example_witness:
  "prayers example_data = Some example_prayers
   \<and> Date_getHours 0 1715205600000 = 22 \<and> Date_getMinutes 0 1715205600000 = 0
   \<and> Date_getDay 0 1715205600000 \<noteq> 5
   \<and> (\<exists>st. nextPrayerState 0 (Some example_data) 1715205600000 = Inr (Some st)
            \<and> name st = ''Fajr'' \<and> isTomorrow st \<and> progress st = Some 100)
   \<and> totalDuration (resolve (schedule example_prayers (jumma example_data) False) 1320) = Some 510
   \<and> elapsed (resolve (schedule example_prayers (jumma example_data) False) 1320) = Some 1470"
proof -
  have h: "Date_getHours 0 1715205600000 = 22" "Date_getMinutes 0 1715205600000 = 0"
    "Date_getDay 0 1715205600000 \<noteq> 5"
    by (simp_all add: Date_getHours_def Date_getMinutes_def Date_getDay_def localTime_def)
  have i: "iqamah (fajr example_prayers) = ''06:00''" "iqamah (zuhr example_prayers) = ''13:30''"
    "iqamah (asr example_prayers) = ''17:00''" "iqamah (maghrib example_prayers) = ''19:55''"
    "iqamah (isha example_prayers) = ''21:30''"
    by (simp_all add: example_prayers_def)
  from overnight_window_example[OF example_data_prayers i h]
  obtain l where l: "nextPrayerState 0 (Some example_data) 1715205600000 = Inr (Some (returned l))"
     "l = resolve (schedule example_prayers (jumma example_data) False) 1320"
     "name (returned l) = ''Fajr''" "isTomorrow (returned l)" "totalDuration l = Some 510"
     "elapsed l = Some 1470" "progress (returned l) = Some 100"
    by (elim exE conjE)
  from l(1,3,4,7) have "\<exists>st. nextPrayerState 0 (Some example_data) 1715205600000 = Inr (Some st)
            \<and> name st = ''Fajr'' \<and> isTomorrow st \<and> progress st = Some 100"
    by (intro exI[of _ "returned l"] conjI)
  moreover from l(2,5,6) have
    "totalDuration (resolve (schedule example_prayers (jumma example_data) False) 1320) = Some 510"
    "elapsed (resolve (schedule example_prayers (jumma example_data) False) 1320) = Some 1470"
    by simp_all
  ultimately show ?thesis using h example_data_prayers by (intro conjI)
qed

section \<open>The progress value\<close>

lemma num_sub_None [simp]: "num_sub a None = None" "num_sub None b = None"
  by (auto simp: num_sub_def split: option.splits)

lemma progress_of_range: "\<exists>x. progress_of (Some e) t = Some x \<and> 0 \<le> x \<and> x \<le> 100"
  by (cases t) (auto simp: progress_of_def num_gt_def)

lemma progress_of_NaN_total: "progress_of e None = Some 0"
  by (simp add: progress_of_def num_gt_def)

text \<open>The progress is a number from 0 to 100, never \<^verbatim>\<open>NaN\<close>.\<close>

lemma progress_in_range:
  "\<exists>x. progress_l (resolve sched cur) = Some x \<and> 0 \<le> x \<and> x \<le> 100"
proof -
  have *: "\<exists>x. progress_of (num_sub (Some c) prev) (num_sub nextT prev) = Some x
      \<and> 0 \<le> x \<and> x \<le> 100" for c prev nextT
  proof (cases prev)
    case None
    then show ?thesis by (simp add: progress_of_NaN_total)
  next
    case (Some pv)
    then have "num_sub (Some c) prev = Some (c - pv)" by (simp add: num_sub_def)
    then show ?thesis using progress_of_range by simp
  qed
  show ?thesis
    by (simp add: resolve_def Let_def *)
qed

lemma progress_zero_when_total_not_positive:
  "totalDuration (resolve sched cur) = Some t \<Longrightarrow> t \<le> 0 \<Longrightarrow>
   progress_l (resolve sched cur) = Some 0"
  by (auto simp: resolve_def Let_def progress_of_def num_gt_def split: if_splits)

text \<open>
  From the last iqamah of the day until midnight the elapsed time is computed as
  \<^verbatim>\<open>currentMinutes + 24 * 60 - prevPrayerTime\<close>, one day more than the minutes since the
  previous iqamah; it is never less than the total duration, so the progress is 100
  throughout (for a schedule whose first iqamah is not later in the day than its last).
\<close>

lemma progress_until_midnight:
  assumes "isTomorrow_l (resolve sched cur)"
    and "getMinutes (iqamah (sched ! 0)) = Some f" "getMinutes (iqamah (sched ! 4)) = Some pv"
    and "f \<le> pv" "pv \<le> cur" "pv < f + 1440"
  shows "progress_l (resolve sched cur) = Some 100"
proof -
  from assms(1) have nf: "findIndex (exceeds cur) sched = -1"
    by (auto simp: resolve_def Let_def split: if_splits)
  define e t where "e = cur + 1440 - pv" and "t = f + 1440 - pv"
  have pos: "0 < t" and le: "t \<le> e" using assms(4,5,6) by (simp_all add: e_def t_def)
  define q :: rat where "q = of_int e / of_int t"
  have "1 \<le> q" using pos le by (simp add: q_def le_divide_eq)
  then have "min 100 (max 0 (q * 100)) = 100" by simp
  then have "progress_of (Some e) (Some t) = Some 100"
    using pos by (simp add: progress_of_def num_gt_def q_def)
  moreover have "progress_l (resolve sched cur) = progress_of (Some e) (Some t)"
    using nf assms(2,3)
    by (simp add: resolve_def Let_def num_add_def num_sub_def e_def t_def)
  ultimately show ?thesis by simp
qed

text \<open>
  C5, evaluated on the example schedule (times in UTC, 8 and 9 May 2024): at 21:30, the
  iqamah of Isha, the progress is 100; it is 100 at 22:00 and at 23:59; one minute later,
  at 00:00, in the same interval from Isha to Fajr, it is 500/17, about 29.4.
\<close>

theorem progress_after_isha:
  "nextPrayerState 0 (Some example_data) 1715203800000
     = Inr (Some \<lparr>azan = ''05:30'', iqamah = ''06:00'', name = ''Fajr'', isTomorrow = True,
                  progress = Some 100\<rparr>)
   \<and> nextPrayerState 0 (Some example_data) 1715205600000
     = Inr (Some \<lparr>azan = ''05:30'', iqamah = ''06:00'', name = ''Fajr'', isTomorrow = True,
                  progress = Some 100\<rparr>)
   \<and> nextPrayerState 0 (Some example_data) 1715212740000
     = Inr (Some \<lparr>azan = ''05:30'', iqamah = ''06:00'', name = ''Fajr'', isTomorrow = True,
                  progress = Some 100\<rparr>)
   \<and> nextPrayerState 0 (Some example_data) 1715212800000
     = Inr (Some \<lparr>azan = ''05:30'', iqamah = ''06:00'', name = ''Fajr'', isTomorrow = False,
                  progress = Some (500 / 17)\<rparr>)"
  by code_simp

section \<open>The countdown\<close>

lemma getMinutes_Some:
  assumes "getMinutes s = Some mins"
  shows "\<exists>h m rest. map Number (split CHR '':'' s) = Some h # Some m # rest \<and> mins = h * 60 + m"
  using assms
  by (auto simp: getMinutes_def num_add_def split: list.splits option.splits)

lemma mod_mult_div:
  fixes a b c :: int
  assumes "0 < b" "0 \<le> c"
  shows "a mod (b * c) div b = a div b mod c"
proof -
  have "a mod (b * c) = b * (a div b mod c) + a mod b"
    using assms by (simp add: zmod_zmult2_eq)
  moreover have "0 \<le> a mod b" "a mod b < b" using assms by simp_all
  ultimately show ?thesis using assms by simp
qed

lemma hms_parts:
  fixes d :: int
  shows "d div 3600000 = d div 1000 div 3600"
    and "d mod 3600000 div 60000 = d div 1000 div 60 mod 60"
    and "d mod 60000 div 1000 = d div 1000 mod 60"
proof -
  show "d div 3600000 = d div 1000 div 3600"
    using zdiv_zmult2_eq[of 3600 d 1000] by simp
  have "d mod (60000 * 60) div 60000 = d div 60000 mod 60"
    by (rule mod_mult_div) simp_all
  moreover have "d div 60000 = d div 1000 div 60"
    using zdiv_zmult2_eq[of 60 d 1000] by simp
  ultimately show "d mod 3600000 div 60000 = d div 1000 div 60 mod 60" by simp
  have "d mod (1000 * 60) div 1000 = d div 1000 mod 60"
    by (rule mod_mult_div) simp_all
  then show "d mod 60000 div 1000 = d div 1000 mod 60" by simp
qed

lemma char_zero: "char_of (48 :: nat) = CHR ''0''"
  by code_simp

lemma padStart2_two_digits:
  assumes "0 \<le> k" "k < 100"
  shows "padStart2 (toString (nat k)) = two_digits k"
proof (cases "nat k < 10")
  case True
  then have "toString (nat k) = [char_of (48 + nat k)]" by (subst toString.simps) simp
  then show ?thesis using True by (simp add: padStart2_def two_digits_def char_zero)
next
  case False
  then have d: "nat k div 10 < 10" using assms by simp
  have "toString (nat k div 10) = [char_of (48 + nat k div 10)]"
    using d by (subst toString.simps) simp
  then have "toString (nat k) = [char_of (48 + nat k div 10), char_of (48 + nat k mod 10)]"
    using False by (subst toString.simps) simp
  then show ?thesis by (simp add: padStart2_def two_digits_def)
qed

lemma startOfDay_local_midnight: "startOfDay tz now = local_midnight tz now"
  unfolding startOfDay_def localDay_def localTime_def local_midnight_def
    minus_mod_eq_div_mult[symmetric]
  by simp

lemma local_midnight_le: "local_midnight tz now \<le> now" "now < local_midnight tz now + 86400000"
proof -
  have "0 \<le> (now + tz * 60000) mod 86400000" "(now + tz * 60000) mod 86400000 < 86400000"
    by simp_all
  then show "local_midnight tz now \<le> now" "now < local_midnight tz now + 86400000"
    by (simp_all add: local_midnight_def)
qed

text \<open>
  C8. When the iqamah of the resolved prayer reads as \<open>mins\<close> minutes, the target instant
  is local midnight of today, or of tomorrow when the prayer is flagged so, plus those
  minutes. When the target has passed, the countdown is exactly 00:00:00. Otherwise
  (for a remaining time under a hundred hours) it is the remaining time floored to the
  second, as hours, minutes and seconds of two digits each. For a time of day the
  remaining time is under 48 hours and the string has eight characters.
\<close>

theorem countdownStr_as_specified:
  assumes "getMinutes (iqamah n) = Some mins"
  shows "(target_instant tz now (isTomorrow n) mins < now \<longrightarrow>
            countdownStr tz (Some n) now = ''00:00:00'')
       \<and> (target_instant tz now (isTomorrow n) mins - now < 360000000 \<longrightarrow>
            countdownStr tz (Some n) now = countdown_spec tz (isTomorrow n) mins now)
       \<and> (0 \<le> mins \<and> mins < 1440 \<longrightarrow>
            target_instant tz now (isTomorrow n) mins - now < 172800000
            \<and> length (countdownStr tz (Some n) now) = 8)"
proof -
  from getMinutes_Some[OF assms] obtain h m rest where
    hm: "map Number (split CHR '':'' (iqamah n)) = Some h # Some m # rest" "mins = h * 60 + m"
    by (elim exE conjE)
  define remaining where "remaining = target_instant tz now (isTomorrow n) mins - now"
  have diff: "num_sub (if isTomorrow n
                       then num_add (Some (startOfDay tz now + h * 3600000 + m * 60000)) (Some 86400000)
                       else Some (startOfDay tz now + h * 3600000 + m * 60000)) (Some now)
              = Some remaining"
    by (simp add: remaining_def target_instant_def startOfDay_local_midnight num_add_def
        num_sub_def hm(2) algebra_simps)
  have code: "countdownStr tz (Some n) now =
      (if remaining < 0 then ''00:00:00''
       else padStart2 (toString (nat (remaining div 3600000))) @ '':''
            @ padStart2 (toString (nat (remaining mod 3600000 div 60000))) @ '':''
            @ padStart2 (toString (nat (remaining mod 60000 div 1000))))"
    using diff by (simp add: countdownStr_def Let_def hm(1))
  have spec: "countdown_spec tz (isTomorrow n) mins now =
      (if remaining < 0 then ''00:00:00'' else hhmmss (remaining div 1000))"
    by (simp add: countdown_spec_def Let_def remaining_def)
  have neg: "target_instant tz now (isTomorrow n) mins < now \<longrightarrow>
      countdownStr tz (Some n) now = ''00:00:00''"
    using code by (simp add: remaining_def)
  have eq: "countdownStr tz (Some n) now = countdown_spec tz (isTomorrow n) mins now"
    if small: "remaining < 360000000"
  proof (cases "remaining < 0")
    case True
    then show ?thesis by (simp only: code spec if_True)
  next
    case False
    then have nn: "0 \<le> remaining" by simp
    define secs where "secs = remaining div 1000"
    have s: "0 \<le> secs" "secs < 360000" using nn small by (simp_all add: secs_def)
    have r: "0 \<le> secs div 3600" "secs div 3600 < 100" "0 \<le> secs div 60 mod 60"
      "secs div 60 mod 60 < 100" "0 \<le> secs mod 60" "secs mod 60 < 100"
      using s by auto
    have "padStart2 (toString (nat (remaining div 3600000))) @ '':''
            @ padStart2 (toString (nat (remaining mod 3600000 div 60000))) @ '':''
            @ padStart2 (toString (nat (remaining mod 60000 div 1000)))
          = hhmmss secs"
      unfolding hms_parts secs_def[symmetric] hhmmss_def
      by (simp only: padStart2_two_digits[OF r(1,2)] padStart2_two_digits[OF r(3,4)]
          padStart2_two_digits[OF r(5,6)])
    then show ?thesis by (simp only: code spec False if_False secs_def)
  qed
  have eq': "target_instant tz now (isTomorrow n) mins - now < 360000000 \<longrightarrow>
      countdownStr tz (Some n) now = countdown_spec tz (isTomorrow n) mins now"
    using eq by (simp add: remaining_def)
  have len: "0 \<le> mins \<and> mins < 1440 \<longrightarrow>
            target_instant tz now (isTomorrow n) mins - now < 172800000
            \<and> length (countdownStr tz (Some n) now) = 8"
  proof
    assume r: "0 \<le> mins \<and> mins < 1440"
    have ub: "remaining < 172800000"
      using r local_midnight_le(1)[of tz now]
      by (simp add: remaining_def target_instant_def split: if_splits)
    then have e: "countdownStr tz (Some n) now = countdown_spec tz (isTomorrow n) mins now"
      using eq by simp
    have "length (countdown_spec tz (isTomorrow n) mins now) = 8"
      by (simp add: spec hhmmss_def two_digits_def)
    with e ub show "target_instant tz now (isTomorrow n) mins - now < 172800000
            \<and> length (countdownStr tz (Some n) now) = 8"
      by (simp add: remaining_def)
  qed
  show ?thesis by (rule conjI[OF neg conjI[OF eq' len]])
qed


text \<open>
  10 May 2024, 22:00:01.234 UTC: 7 hours, 59 minutes and 58 seconds to 06:00 of the next
  day; 06:00 of the same day has passed.
\<close>

theorem countdownStr_as_specified_witness:
  "getMinutes ''06:00'' = Some 360
   \<and> target_instant 0 1715378401234 True 360 - 1715378401234 < 360000000
   \<and> countdownStr 0 (Some \<lparr>azan = ''05:30'', iqamah = ''06:00'', name = ''Fajr'',
                            isTomorrow = True, progress = Some 100\<rparr>) 1715378401234
       = ''07:59:58''
   \<and> target_instant 0 1715378401234 False 360 < 1715378401234
   \<and> countdownStr 0 (Some \<lparr>azan = ''05:30'', iqamah = ''06:00'', name = ''Fajr'',
                            isTomorrow = False, progress = Some 100\<rparr>) 1715378401234
       = ''00:00:00''
   \<and> length (countdownStr 0 (Some \<lparr>azan = ''05:30'', iqamah = ''06:00'', name = ''Fajr'',
                            isTomorrow = True, progress = Some 100\<rparr>) 1715378401234) = 8"
proof -
  have g: "getMinutes ''06:00'' = Some 360" by (rule getMinutes_examples)
  have s: "countdown_spec 0 True 360 1715378401234 = ''07:59:58''" by code_simp
  have r: "target_instant 0 1715378401234 True 360 - 1715378401234 < 360000000"
    by (simp add: target_instant_def local_midnight_def)
  have t: "target_instant 0 1715378401234 False 360 < 1715378401234"
    by (simp add: target_instant_def local_midnight_def)
  have p: "getMinutes (iqamah \<lparr>azan = ''05:30'', iqamah = ''06:00'', name = ''Fajr'',
                                isTomorrow = True, progress = Some 100\<rparr>) = Some 360"
    using g by simp
  note spec = countdownStr_as_specified[OF p, of 0 1715378401234, THEN conjunct2, THEN conjunct1]
  with r s have a: "countdownStr 0 (Some \<lparr>azan = ''05:30'', iqamah = ''06:00'', name = ''Fajr'',
                            isTomorrow = True, progress = Some 100\<rparr>) 1715378401234
       = ''07:59:58''"
    by simp
  have q: "getMinutes (iqamah \<lparr>azan = ''05:30'', iqamah = ''06:00'', name = ''Fajr'',
                                isTomorrow = False, progress = Some 100\<rparr>) = Some 360"
    using g by simp
  note passed = countdownStr_as_specified[OF q, of 0 1715378401234, THEN conjunct1]
  with t have b: "countdownStr 0 (Some \<lparr>azan = ''05:30'', iqamah = ''06:00'', name = ''Fajr'',
                            isTomorrow = False, progress = Some 100\<rparr>) 1715378401234
       = ''00:00:00''"
    by simp
  from countdownStr_as_specified[OF p, of 0 1715378401234, THEN conjunct2, THEN conjunct2]
  have l: "length (countdownStr 0 (Some \<lparr>azan = ''05:30'', iqamah = ''06:00'', name = ''Fajr'',
                            isTomorrow = True, progress = Some 100\<rparr>) 1715378401234) = 8"
    by simp
  from g r a t b l show ?thesis by (intro conjI)
qed


section \<open>Loading and saving\<close>

lemmas io_defs = io_bind_def io_return_def io_throw_def try_catch_def console_warn_def
  console_error_def setItem_OFFLINE_KEY_def getItem_OFFLINE_KEY_def setItem_SESSION_TOKEN_def
  JSON_parse_def fetch_def response_json_def

lemma migrate_links_back_filled: "migrate_links d = back_filled d"
  by (cases "links d") (simp_all add: migrate_links_def back_filled_def)

lemma fetch_block_cases:
  "fetch_block r w =
     (case r of
        Rejected \<Rightarrow> (Inl NetworkError, w)
      | Fulfilled resp \<Rightarrow>
          if ok resp
          then (case body resp of
                  Stringified j \<Rightarrow> (Inr (validated j), w)
                | _ \<Rightarrow> (Inl SyntaxError, w))
          else (Inr None, w))"
  by (simp add: fetch_block_def io_defs split: fetch_result.splits rawtext.splits)

lemma fetch_block_payload:
  "\<exists>w'. try_catch (fetch_block r)
          (\<lambda>err. io_bind (console_warn ''Cloud fetch failed, checking offline cache:'')
                    (\<lambda>_. io_return None)) w
        = (Inr (map_option back_filled (usable_payload r)), w')
      \<and> localStorage w' = localStorage w"
  by (auto simp: try_catch_def fetch_block_cases usable_payload_def validated_def io_bind_def
      io_return_def console_warn_def ok_def migrate_links_back_filled
      split: fetch_result.splits rawtext.splits json.splits)

lemma cache_block_cases:
  "cache_block c w =
     (case c of
        Stringified (JObject d) \<Rightarrow> (Inr (back_filled d), w)
      | Stringified _ \<Rightarrow> (Inl TypeError, w)
      | _ \<Rightarrow> (Inl SyntaxError, w))"
  by (simp add: cache_block_def io_defs migrate_links_back_filled
      split: rawtext.splits json.splits)


lemma back_filled_id: "links d \<noteq> None \<Longrightarrow> back_filled d = d"
  by (cases "links d") (simp_all add: back_filled_def)

lemma INITIAL_DATA_usable: "usable (INITIAL_DATA t0)"
  by (simp add: usable_def INITIAL_DATA_def)


lemma fetch_failed_iff: "fetch_failed r \<longleftrightarrow> usable_payload r = None"
  by (auto simp: fetch_failed_def usable_payload_def
      split: fetch_result.splits rawtext.splits json.splits)

lemma getCloudData_load_spec:
  "\<exists>w'. getCloudData t0 r w = (Inr (fst (load_spec t0 r w)), w')
        \<and> localStorage w' = snd (load_spec t0 r w)"
proof -
  obtain w1 where w1: "try_catch (fetch_block r)
          (\<lambda>err. io_bind (console_warn ''Cloud fetch failed, checking offline cache:'')
                    (\<lambda>_. io_return None)) w
        = (Inr (map_option back_filled (usable_payload r)), w1)"
      "localStorage w1 = localStorage w"
    using fetch_block_payload[of r w] by (elim exE conjE)
  show ?thesis
  proof (cases "usable_payload r")
    case (Some p)
    then show ?thesis
      using w1
      by (simp add: getCloudData_def io_bind_def io_return_def setItem_OFFLINE_KEY_def
          load_spec_def JSON_stringify_def)
  next
    case None
    show ?thesis
    proof (cases "OFFLINE_KEY (localStorage w)")
      case N: None
      then show ?thesis
        using w1 None
        by (simp add: getCloudData_def io_bind_def io_return_def getItem_OFFLINE_KEY_def
            load_spec_def parseable_cache_def)
    next
      case (Some c)
      then show ?thesis
        using w1 None
        by (cases c)
           (auto simp: getCloudData_def io_bind_def io_return_def getItem_OFFLINE_KEY_def
              try_catch_def cache_block_cases console_warn_def
              load_spec_def parseable_cache_def split: json.splits)
    qed
  qed
qed





lemma syncToCloud_result:
  "\<exists>w'. syncToCloud now_iso r data w = (Inr (), w')
     \<and> localStorage w'
         = (localStorage w)\<lparr>OFFLINE_KEY :=
              Some (Stringified (JObject (data\<lparr>lastUpdated := now_iso\<rparr>)))\<rparr>
     \<and> console w' = console w @ sync_log r"
  by (cases r)
     (simp_all add: syncToCloud_def Let_def io_defs JSON_stringify_def sync_log_def ok_def)

text \<open>
  C10. \<^verbatim>\<open>syncToCloud\<close> always resolves, whatever the remote write does: a network error
  and a non-OK status other than 404 are logged as an error, a 404 as a warning, and
  none reaches the caller. The stamped state is in the local cache in every case, and
  the session is untouched.
\<close>

theorem syncToCloud_always_resolves:
  "\<exists>w'. syncToCloud now_iso r data w = (Inr (), w')
     \<and> OFFLINE_KEY (localStorage w')
         = Some (Stringified (JObject (data\<lparr>lastUpdated := now_iso\<rparr>)))
     \<and> SESSION_TOKEN (localStorage w') = SESSION_TOKEN (localStorage w)
     \<and> console w' = console w @ sync_log r
     \<and> (usable data \<longrightarrow> cache_ok w')"
proof -
  from syncToCloud_result[of now_iso r data w] obtain w' where
    w': "syncToCloud now_iso r data w = (Inr (), w')"
    "localStorage w'
       = (localStorage w)\<lparr>OFFLINE_KEY :=
            Some (Stringified (JObject (data\<lparr>lastUpdated := now_iso\<rparr>)))\<rparr>"
    "console w' = console w @ sync_log r"
    by (elim exE conjE)
  from w'(2) have c: "OFFLINE_KEY (localStorage w')
      = Some (Stringified (JObject (data\<lparr>lastUpdated := now_iso\<rparr>)))"
    and s: "SESSION_TOKEN (localStorage w') = SESSION_TOKEN (localStorage w)"
    by simp_all
  have "usable data \<longrightarrow> cache_ok w'"
    using c by (simp add: usable_def cache_ok_def parseable_cache_def)
  with w'(1,3) c s show ?thesis by (intro exI[of _ w'] conjI)
qed

text \<open>
  C3. \<^verbatim>\<open>syncToCloud\<close> stamps \<^verbatim>\<open>lastUpdated\<close> and writes the stamped state to the local
  cache whatever becomes of the remote write; a load that follows while the remote
  fetch fails returns exactly the stamped state, for every state that has its links.
\<close>

theorem save_then_load_roundtrip:
  assumes "fetch_failed r_get" and "links s \<noteq> None"
  shows "\<exists>w1 w2. syncToCloud now_iso r_post s w = (Inr (), w1)
      \<and> OFFLINE_KEY (localStorage w1)
          = Some (Stringified (JObject (s\<lparr>lastUpdated := now_iso\<rparr>)))
      \<and> getCloudData t0 r_get w1 = (Inr (s\<lparr>lastUpdated := now_iso\<rparr>), w2)
      \<and> localStorage w2 = localStorage w1"
proof -
  from syncToCloud_result[of now_iso r_post s w] obtain w1 where
    w1: "syncToCloud now_iso r_post s w = (Inr (), w1)"
    "localStorage w1
       = (localStorage w)\<lparr>OFFLINE_KEY :=
            Some (Stringified (JObject (s\<lparr>lastUpdated := now_iso\<rparr>)))\<rparr>"
    by (elim exE conjE)
  have cache: "OFFLINE_KEY (localStorage w1)
      = Some (Stringified (JObject (s\<lparr>lastUpdated := now_iso\<rparr>)))"
    using w1(2) by simp
  have np: "usable_payload r_get = None" using assms(1) by (simp add: fetch_failed_iff)
  have "back_filled (s\<lparr>lastUpdated := now_iso\<rparr>) = s\<lparr>lastUpdated := now_iso\<rparr>"
    using assms(2) by (intro back_filled_id) simp
  then have ls: "load_spec t0 r_get w1 = (s\<lparr>lastUpdated := now_iso\<rparr>, localStorage w1)"
    using np cache by (simp add: load_spec_def parseable_cache_def)
  from getCloudData_load_spec[of t0 r_get w1] obtain w2 where
    "getCloudData t0 r_get w1 = (Inr (fst (load_spec t0 r_get w1)), w2)"
    "localStorage w2 = snd (load_spec t0 r_get w1)"
    by (elim exE conjE)
  then have "getCloudData t0 r_get w1 = (Inr (s\<lparr>lastUpdated := now_iso\<rparr>), w2)"
    "localStorage w2 = localStorage w1"
    by (simp_all add: ls)
  with w1(1) cache show ?thesis by (intro exI[of _ w1] exI[of _ w2] conjI)
qed


lemma example_data_usable: "usable example_data"
  by (simp add: example_data_def INITIAL_DATA_usable)


lemma empty_world_ok: "cache_ok empty_world"
  by (simp add: cache_ok_def parseable_cache_def empty_world_def)

lemma example_data_fields:
  "prayers example_data = Some example_prayers"
  "users example_data
     = Some [\<lparr>user_id = ''root-super-admin'', email = ''darzaid700@gmail.com'',
              password = Some ''darzaid123'', role = SUPER_ADMIN, enabled = True\<rparr>]"
  "links example_data = Some []"
  by (simp_all add: example_data_def INITIAL_DATA_def example_prayers_def)



text \<open>A remote write answered with status 500: the promise resolves and the error is logged.\<close>

theorem syncToCloud_always_resolves_witness:
  "usable example_data
   \<and> (\<exists>w'. syncToCloud ''2024-05-10T20:00:00.000Z'' (Fulfilled \<lparr>status = 500, body = Empty\<rparr>)
           example_data empty_world = (Inr (), w')
        \<and> console w' = [LogError ''Non-critical Sync Error:'']
        \<and> OFFLINE_KEY (localStorage w')
            = Some (Stringified (JObject (example_data\<lparr>lastUpdated := ''2024-05-10T20:00:00.000Z''\<rparr>)))
        \<and> cache_ok w')"
proof -
  from syncToCloud_always_resolves[of "''2024-05-10T20:00:00.000Z''"
      "Fulfilled \<lparr>status = 500, body = Empty\<rparr>" example_data empty_world]
  obtain w' where w':
    "syncToCloud ''2024-05-10T20:00:00.000Z'' (Fulfilled \<lparr>status = 500, body = Empty\<rparr>)
           example_data empty_world = (Inr (), w')"
    "OFFLINE_KEY (localStorage w')
            = Some (Stringified (JObject (example_data\<lparr>lastUpdated := ''2024-05-10T20:00:00.000Z''\<rparr>)))"
    "console w' = console empty_world @ sync_log (Fulfilled \<lparr>status = 500, body = Empty\<rparr>)"
    "usable example_data \<longrightarrow> cache_ok w'"
    by (elim exE conjE)
  from w'(4) example_data_usable have k: "cache_ok w'" by simp
  from w'(3) have c: "console w' = [LogError ''Non-critical Sync Error:'']"
    by (simp add: sync_log_def empty_world_def)
  from w'(1) c w'(2) k have
    "\<exists>w'. syncToCloud ''2024-05-10T20:00:00.000Z'' (Fulfilled \<lparr>status = 500, body = Empty\<rparr>)
           example_data empty_world = (Inr (), w')
        \<and> console w' = [LogError ''Non-critical Sync Error:'']
        \<and> OFFLINE_KEY (localStorage w')
            = Some (Stringified (JObject (example_data\<lparr>lastUpdated := ''2024-05-10T20:00:00.000Z''\<rparr>)))
        \<and> cache_ok w'"
    by (intro exI[of _ w'] conjI)
  with example_data_usable show ?thesis by (intro conjI)
qed

text \<open>A save whose remote write fails, then a load while the network is down.\<close>

theorem save_then_load_roundtrip_witness:
  "fetch_failed Rejected \<and> links example_data \<noteq> None
   \<and> (\<exists>w1 w2. syncToCloud ''2024-05-10T20:00:00.000Z'' Rejected example_data empty_world
                  = (Inr (), w1)
         \<and> getCloudData [] Rejected w1
             = (Inr (example_data\<lparr>lastUpdated := ''2024-05-10T20:00:00.000Z''\<rparr>), w2))"
proof -
  have f: "fetch_failed Rejected" by (simp add: fetch_failed_def)
  have l: "links example_data \<noteq> None" by (simp add: example_data_fields)
  from save_then_load_roundtrip[OF f l, of "''2024-05-10T20:00:00.000Z''" Rejected empty_world "[]"]
  obtain w1 w2 where
    "syncToCloud ''2024-05-10T20:00:00.000Z'' Rejected example_data empty_world = (Inr (), w1)"
    "getCloudData [] Rejected w1
             = (Inr (example_data\<lparr>lastUpdated := ''2024-05-10T20:00:00.000Z''\<rparr>), w2)"
    by (elim exE conjE)
  then have "\<exists>w1 w2. syncToCloud ''2024-05-10T20:00:00.000Z'' Rejected example_data empty_world
                  = (Inr (), w1)
         \<and> getCloudData [] Rejected w1
             = (Inr (example_data\<lparr>lastUpdated := ''2024-05-10T20:00:00.000Z''\<rparr>), w2)"
    by (intro exI[of _ w1] exI[of _ w2] conjI)
  with f l show ?thesis by (intro conjI)
qed


section \<open>Authentication\<close>

lemma find_Some_member: "find P xs = Some x \<Longrightarrow> x \<in> set xs \<and> P x"
  by (induction xs) (auto split: if_splits)

lemma find_first_match: "\<exists>x\<in>set xs. P x \<Longrightarrow> \<exists>x\<in>set xs. find P xs = Some x \<and> P x"
  by (induction xs) auto

lemma authenticate_cases:
  assumes "getCloudData t0 r w = (Inr d, w1)" and "users d = Some us"
  shows "authenticate t0 r now_ms e p w =
     (case find (credentials_match e p) us of
        None \<Rightarrow> (Inr None, w1)
      | Some u \<Rightarrow>
          if enabled u
          then (Inr (Some (u\<lparr>password := None\<rparr>)),
                w1\<lparr>localStorage := (localStorage w1)
                      \<lparr>SESSION_TOKEN := Some \<lparr>user = u\<lparr>password := None\<rparr>,
                                               expiry = now_ms + SESSION_TIMEOUT_MS\<rparr>\<rparr>\<rparr>)
          else (Inr None, w1))"
  using assms
  by (simp add: authenticate_def io_bind_def io_return_def setItem_SESSION_TOKEN_def Let_def
      split: option.splits)

text \<open>
  C9. Against the user list that \<^verbatim>\<open>getCloudData\<close> returns: when every user whose email
  matches the trimmed input case-insensitively and whose password is the input is
  disabled (in particular when no email matches, or no password does), \<^verbatim>\<open>authenticate\<close>
  resolves to \<^verbatim>\<open>null\<close> and leaves the world as the load left it, the same result in each
  case, and \<^verbatim>\<open>handleLogin\<close> shows the one generic message. When it resolves to a user,
  that user is an enabled user of the list with matching email and password, stripped
  of the password, and the session stored holds the same stripped user. It does one or
  the other, and when some user matches and every matching user is enabled it succeeds.
\<close>

theorem authenticate_failure_uniform:
  assumes "getCloudData t0 r w = (Inr d, w1)" and "users d = Some us"
  shows "((\<forall>u\<in>set us. toLowerCase (email u) = trim (toLowerCase e) \<and> password u = Some p
                        \<longrightarrow> \<not> enabled u) \<longrightarrow>
            authenticate t0 r now_ms e p w = (Inr None, w1))
       \<and> ((\<forall>u\<in>set us. toLowerCase (email u) \<noteq> trim (toLowerCase e)) \<longrightarrow>
            authenticate t0 r now_ms e p w = (Inr None, w1))
       \<and> ((\<forall>u\<in>set us. password u \<noteq> Some p) \<longrightarrow>
            authenticate t0 r now_ms e p w = (Inr None, w1))
       \<and> (authenticate t0 r now_ms e p w = (Inr None, w1) \<longrightarrow>
            handleLogin t0 r now_ms (ui\<lparr>loginEmail := e, loginPassword := p\<rparr>) w
              = (Inr (login_failed (ui\<lparr>loginEmail := e, loginPassword := p\<rparr>)), w1))
       \<and> (\<forall>su w2. authenticate t0 r now_ms e p w = (Inr (Some su), w2) \<longrightarrow>
            password su = None
            \<and> (\<exists>u\<in>set us. enabled u \<and> toLowerCase (email u) = trim (toLowerCase e)
                  \<and> password u = Some p \<and> su = u\<lparr>password := None\<rparr>)
            \<and> w2 = w1\<lparr>localStorage := (localStorage w1)
                        \<lparr>SESSION_TOKEN := Some \<lparr>user = su, expiry = now_ms + 1200000\<rparr>\<rparr>\<rparr>)
       \<and> (authenticate t0 r now_ms e p w = (Inr None, w1)
           \<or> (\<exists>su w2. authenticate t0 r now_ms e p w = (Inr (Some su), w2)))
       \<and> ((\<exists>u\<in>set us. toLowerCase (email u) = trim (toLowerCase e) \<and> password u = Some p)
           \<and> (\<forall>u\<in>set us. toLowerCase (email u) = trim (toLowerCase e) \<and> password u = Some p
                            \<longrightarrow> enabled u) \<longrightarrow>
            (\<exists>su w2. authenticate t0 r now_ms e p w = (Inr (Some su), w2)))"
proof -
  note ac = authenticate_cases[OF assms, of now_ms e p]
  have disabled: "authenticate t0 r now_ms e p w = (Inr None, w1)"
    if "\<forall>u\<in>set us. credentials_match e p u \<longrightarrow> \<not> enabled u"
  proof (cases "find (credentials_match e p) us")
    case None
    then show ?thesis using ac by simp
  next
    case (Some u)
    with find_Some_member[OF Some] that have "\<not> enabled u" by blast
    then show ?thesis using ac Some by simp
  qed
  have c1: "(\<forall>u\<in>set us. toLowerCase (email u) = trim (toLowerCase e) \<and> password u = Some p
                        \<longrightarrow> \<not> enabled u) \<longrightarrow>
            authenticate t0 r now_ms e p w = (Inr None, w1)"
    using disabled by (auto simp: credentials_match_def)
  have c2: "(\<forall>u\<in>set us. toLowerCase (email u) \<noteq> trim (toLowerCase e)) \<longrightarrow>
            authenticate t0 r now_ms e p w = (Inr None, w1)"
    using disabled by (auto simp: credentials_match_def)
  have c3: "(\<forall>u\<in>set us. password u \<noteq> Some p) \<longrightarrow>
            authenticate t0 r now_ms e p w = (Inr None, w1)"
    using disabled by (auto simp: credentials_match_def)
  have c4: "authenticate t0 r now_ms e p w = (Inr None, w1) \<longrightarrow>
            handleLogin t0 r now_ms (ui\<lparr>loginEmail := e, loginPassword := p\<rparr>) w
              = (Inr (login_failed (ui\<lparr>loginEmail := e, loginPassword := p\<rparr>)), w1)"
    by (simp add: handleLogin_def io_bind_def io_return_def login_failed_def)
  have c5: "\<forall>su w2. authenticate t0 r now_ms e p w = (Inr (Some su), w2) \<longrightarrow>
            password su = None
            \<and> (\<exists>u\<in>set us. enabled u \<and> toLowerCase (email u) = trim (toLowerCase e)
                  \<and> password u = Some p \<and> su = u\<lparr>password := None\<rparr>)
            \<and> w2 = w1\<lparr>localStorage := (localStorage w1)
                        \<lparr>SESSION_TOKEN := Some \<lparr>user = su, expiry = now_ms + 1200000\<rparr>\<rparr>\<rparr>"
  proof (intro allI impI)
    fix su w2
    assume a: "authenticate t0 r now_ms e p w = (Inr (Some su), w2)"
    show "password su = None
            \<and> (\<exists>u\<in>set us. enabled u \<and> toLowerCase (email u) = trim (toLowerCase e)
                  \<and> password u = Some p \<and> su = u\<lparr>password := None\<rparr>)
            \<and> w2 = w1\<lparr>localStorage := (localStorage w1)
                        \<lparr>SESSION_TOKEN := Some \<lparr>user = su, expiry = now_ms + 1200000\<rparr>\<rparr>\<rparr>"
    proof (cases "find (credentials_match e p) us")
      case None
      then show ?thesis using ac a by simp
    next
      case (Some u)
      from find_Some_member[OF Some] have m: "u \<in> set us" "credentials_match e p u" by simp_all
      from a ac Some have en: "enabled u" and su: "su = u\<lparr>password := None\<rparr>"
        and w2: "w2 = w1\<lparr>localStorage := (localStorage w1)
                      \<lparr>SESSION_TOKEN := Some \<lparr>user = u\<lparr>password := None\<rparr>,
                                               expiry = now_ms + SESSION_TIMEOUT_MS\<rparr>\<rparr>\<rparr>"
        by (auto split: if_splits)
      from m en su have "\<exists>u\<in>set us. enabled u \<and> toLowerCase (email u) = trim (toLowerCase e)
                  \<and> password u = Some p \<and> su = u\<lparr>password := None\<rparr>"
        by (auto simp: credentials_match_def)
      moreover have "password su = None" using su by simp
      moreover have "w2 = w1\<lparr>localStorage := (localStorage w1)
                        \<lparr>SESSION_TOKEN := Some \<lparr>user = su, expiry = now_ms + 1200000\<rparr>\<rparr>\<rparr>"
        using su w2 by (simp add: SESSION_TIMEOUT_MS_def)
      ultimately show ?thesis by (intro conjI)
    qed
  qed
  have c6: "authenticate t0 r now_ms e p w = (Inr None, w1)
           \<or> (\<exists>su w2. authenticate t0 r now_ms e p w = (Inr (Some su), w2))"
    using ac by (auto split: option.splits)
  have c7: "(\<exists>u\<in>set us. toLowerCase (email u) = trim (toLowerCase e) \<and> password u = Some p)
           \<and> (\<forall>u\<in>set us. toLowerCase (email u) = trim (toLowerCase e) \<and> password u = Some p
                            \<longrightarrow> enabled u) \<longrightarrow>
            (\<exists>su w2. authenticate t0 r now_ms e p w = (Inr (Some su), w2))"
  proof
    assume h: "(\<exists>u\<in>set us. toLowerCase (email u) = trim (toLowerCase e) \<and> password u = Some p)
           \<and> (\<forall>u\<in>set us. toLowerCase (email u) = trim (toLowerCase e) \<and> password u = Some p
                            \<longrightarrow> enabled u)"
    then have "\<exists>u\<in>set us. credentials_match e p u" by (simp add: credentials_match_def)
    from find_first_match[OF this] obtain u where
      u: "u \<in> set us" "find (credentials_match e p) us = Some u" "credentials_match e p u"
      by blast
    with h have "enabled u" by (simp add: credentials_match_def)
    with ac u(2) show "\<exists>su w2. authenticate t0 r now_ms e p w = (Inr (Some su), w2)"
      by simp
  qed
  show ?thesis
    by (rule conjI[OF c1 conjI[OF c2 conjI[OF c3 conjI[OF c4 conjI[OF c5 conjI[OF c6 c7]]]]]])
qed

lemma example_load:
  "getCloudData [] Rejected example_world = (Inr example_data, after_failed_fetch example_world)"
  by (simp add: getCloudData_def fetch_block_def cache_block_def io_defs example_world_def
      migrate_links_def example_data_def INITIAL_DATA_def after_failed_fetch_def)

lemma disabled_load:
  "getCloudData [] Rejected disabled_world
     = (Inr (example_data
            \<lparr>users := Some [\<lparr>user_id = ''a1'', email = ''Imam@Example.org'',
                               password = Some ''secret'', role = ADMIN, enabled = False\<rparr>]\<rparr>),
        after_failed_fetch disabled_world)"
  by (simp add: getCloudData_def fetch_block_def cache_block_def io_defs disabled_world_def
      migrate_links_def example_data_def INITIAL_DATA_def after_failed_fetch_def)

lemma example_lower:
  "toLowerCase ''darzaid700@gmail.com'' = ''darzaid700@gmail.com''"
  "trim (toLowerCase '' DarZaid700@Gmail.com '') = ''darzaid700@gmail.com''"
  "trim (toLowerCase ''nobody@example.org'') = ''nobody@example.org''"
  "toLowerCase ''Imam@Example.org'' = ''imam@example.org''"
  "trim (toLowerCase ''imam@example.org'') = ''imam@example.org''"
  by code_simp+

lemma disabled_users:
  "users (example_data
            \<lparr>users := Some [\<lparr>user_id = ''a1'', email = ''Imam@Example.org'',
                               password = Some ''secret'', role = ADMIN, enabled = False\<rparr>]\<rparr>)
     = Some [\<lparr>user_id = ''a1'', email = ''Imam@Example.org'',
               password = Some ''secret'', role = ADMIN, enabled = False\<rparr>]"
  by simp

text \<open>
  Offline, with the default state in the cache: an unknown email and a wrong password
  for a known email leave the same result and the same world; so does the right
  password of a disabled account; the right credentials, in another letter case and
  with blanks around the email, log in and the session user has no password.
\<close>

theorem authenticate_failure_uniform_witness:
  "getCloudData [] Rejected example_world = (Inr example_data, after_failed_fetch example_world)
   \<and> authenticate [] Rejected 1715371200000 ''nobody@example.org'' ''darzaid123'' example_world
       = (Inr None, after_failed_fetch example_world)
   \<and> authenticate [] Rejected 1715371200000 '' DarZaid700@Gmail.com '' ''wrong'' example_world
       = (Inr None, after_failed_fetch example_world)
   \<and> authenticate [] Rejected 1715371200000 ''imam@example.org'' ''secret'' disabled_world
       = (Inr None, after_failed_fetch disabled_world)
   \<and> handleLogin [] Rejected 1715371200000 example_ui example_world
       = (Inr (login_failed example_ui), after_failed_fetch example_world)
   \<and> (\<exists>su w2. authenticate [] Rejected 1715371200000 '' DarZaid700@Gmail.com '' ''darzaid123''
                  example_world = (Inr (Some su), w2)
         \<and> password su = None \<and> email su = ''darzaid700@gmail.com''
         \<and> SESSION_TOKEN (localStorage w2) = Some \<lparr>user = su, expiry = 1715372400000\<rparr>)"
proof -
  note th = authenticate_failure_uniform[OF example_load example_data_fields(2), of _ _ 1715371200000]
  have a: "authenticate [] Rejected 1715371200000 ''nobody@example.org'' ''darzaid123'' example_world
       = (Inr None, after_failed_fetch example_world)"
    using th[of "''nobody@example.org''" "''darzaid123''", THEN conjunct2, THEN conjunct1]
    by (simp add: example_lower)
  have b: "authenticate [] Rejected 1715371200000 '' DarZaid700@Gmail.com '' ''wrong'' example_world
       = (Inr None, after_failed_fetch example_world)"
    using th[of "'' DarZaid700@Gmail.com ''" "''wrong''", THEN conjunct2, THEN conjunct2, THEN conjunct1]
    by simp
  have d: "authenticate [] Rejected 1715371200000 ''imam@example.org'' ''secret'' disabled_world
       = (Inr None, after_failed_fetch disabled_world)"
    using authenticate_failure_uniform[OF disabled_load disabled_users,
        of "''imam@example.org''" "''secret''" 1715371200000, THEN conjunct1]
    by simp
  have ui: "example_ui\<lparr>loginEmail := ''nobody@example.org'', loginPassword := ''darzaid123''\<rparr>
      = example_ui"
    by (simp add: example_ui_def)
  have c: "handleLogin [] Rejected 1715371200000 example_ui example_world
       = (Inr (login_failed example_ui), after_failed_fetch example_world)"
    using th[of "''nobody@example.org''" "''darzaid123''" example_ui,
        THEN conjunct2, THEN conjunct2, THEN conjunct2, THEN conjunct1] a
    by (simp only: ui)
  note ok = th[of "'' DarZaid700@Gmail.com ''" "''darzaid123''"]
  have "\<exists>su w2. authenticate [] Rejected 1715371200000 '' DarZaid700@Gmail.com '' ''darzaid123''
                  example_world = (Inr (Some su), w2)"
    using ok[THEN conjunct2, THEN conjunct2, THEN conjunct2, THEN conjunct2, THEN conjunct2,
        THEN conjunct2]
    by (simp add: example_lower)
  then obtain su w2 where
    s: "authenticate [] Rejected 1715371200000 '' DarZaid700@Gmail.com '' ''darzaid123''
                  example_world = (Inr (Some su), w2)"
    by (elim exE)
  note k = ok[THEN conjunct2, THEN conjunct2, THEN conjunct2, THEN conjunct2, THEN conjunct1,
      rule_format, OF s]
  note p = k[THEN conjunct1]
  note u = k[THEN conjunct2, THEN conjunct1]
  note w = k[THEN conjunct2, THEN conjunct2]
  from u have e: "email su = ''darzaid700@gmail.com''" by simp
  from w have t: "SESSION_TOKEN (localStorage w2) = Some \<lparr>user = su, expiry = 1715372400000\<rparr>"
    by simp
  from s p e t have "\<exists>su w2. authenticate [] Rejected 1715371200000 '' DarZaid700@Gmail.com ''
                  ''darzaid123'' example_world = (Inr (Some su), w2)
         \<and> password su = None \<and> email su = ''darzaid700@gmail.com''
         \<and> SESSION_TOKEN (localStorage w2) = Some \<lparr>user = su, expiry = 1715372400000\<rparr>"
    by (intro exI[of _ su] exI[of _ w2] conjI)
  with example_load a b d c show ?thesis by (intro conjI)
qed


section \<open>The notice filter\<close>

lemma tz_div_day:
  fixes tz :: int
  shows "0 \<le> tz \<Longrightarrow> tz < 1440 \<Longrightarrow> (tz * 60000) div 86400000 = 0"
    and "- 1440 \<le> tz \<Longrightarrow> tz < 0 \<Longrightarrow> (tz * 60000) div 86400000 = - 1"
proof -
  have c: "(tz * 60000) div 86400000 = tz div 1440"
    using div_mult_mult2[of 60000 tz 1440] by simp
  show "0 \<le> tz \<Longrightarrow> tz < 1440 \<Longrightarrow> (tz * 60000) div 86400000 = 0"
    by (simp add: c)
  assume a: "- 1440 \<le> tz" "tz < 0"
  have "tz = 1440 * (tz div 1440) + tz mod 1440" by simp
  moreover have "0 \<le> tz mod 1440" "tz mod 1440 < 1440" by simp_all
  ultimately have "tz div 1440 = - 1" using a by linarith
  then show "(tz * 60000) div 86400000 = - 1" by (simp add: c)
qed

lemma localDay_of_midnight_utc:
  "localDay tz (D * 86400000) = D + (tz * 60000) div 86400000"
proof -
  have "(tz * 60000 + D * 86400000) div 86400000 = D + (tz * 60000) div 86400000"
    using div_mult_self1[of 86400000 "tz * 60000" D] by simp
  then show ?thesis by (simp add: localDay_def localTime_def add.commute)
qed

lemma startOfDay_mono_iff: "startOfDay tz x \<ge> startOfDay tz y \<longleftrightarrow> localDay tz x \<ge> localDay tz y"
  by (simp add: startOfDay_def)

text \<open>
  In general: east of UTC (and on UTC) a notice is shown through its expiry date; west
  of UTC it is shown only until the day before.
\<close>

lemma notice_visible_by_zone:
  assumes "expiryDate n = Some e" "e \<noteq> []" "Date_parse e = Some (D * 86400000)"
  shows "0 \<le> tz \<and> tz < 1440 \<longrightarrow>
           (notice_visible tz (startOfDay tz now) n \<longleftrightarrow> localDay tz now \<le> D)"
    and "- 1440 \<le> tz \<and> tz < 0 \<longrightarrow>
           (notice_visible tz (startOfDay tz now) n \<longleftrightarrow> localDay tz now < D)"
  using assms
  by (auto simp: notice_visible_def startOfDay_mono_iff localDay_of_midnight_utc tz_div_day)

text \<open>
  C7, evaluated in a browser five hours west of UTC (10 May 2024, 15:00 local time,
  20:00 UTC). The expiry date 2024-05-10 is read as midnight UTC, which is 19:00 of
  9 May local time; truncated to the local day it is 9 May, before today, and the notice
  expiring today is not shown. In a browser on UTC the same notice is shown at the same
  instant.
\<close>

theorem notice_expiring_today_hidden:
  "Date_parse ''2024-05-10'' = Some 1715299200000
   \<and> Date_getHours (-300) 1715371200000 = 15
   \<and> localDay (-300) 1715371200000 = 19853
   \<and> days_from_civil 2024 5 10 = 19853
   \<and> startOfDay (-300) 1715371200000 = 1715317200000
   \<and> startOfDay (-300) 1715299200000 = 1715230800000
   \<and> activeNotices (-300) (Some (example_data\<lparr>notices := [example_notice]\<rparr>)) 1715371200000 = []
   \<and> activeNotices 0 (Some (example_data\<lparr>notices := [example_notice]\<rparr>)) 1715371200000
       = [example_notice]"
  by code_simp

end
